theory Spec2Isabelle
  imports Complex_Main "HOL-Library.Word" "HOL-Library.Signed_Division"
begin

section \<open>Scalar types of the C interface\<close>

text \<open>
  \<open>int\<close> is a 32-bit word, \<open>size_t\<close> a 64-bit word and \<open>int16_t\<close> a 16-bit word.
  A \<open>float\<close> is either a finite value, one of the two infinities or a NaN. A finite
  value is the rational number it denotes and a literal such as \<open>0.8f\<close> is read as the
  decimal it is written as; the rounding of literals to binary32 is not modelled.
\<close>

type_synonym c_int = "32 word"
type_synonym size_t = "64 word"
type_synonym int16_t = "16 word"

datatype cfloat = Finite rat | PInf | NInf | NaN

text \<open>The comparison operators of C on floats: every comparison with a NaN is false.\<close>

fun flt :: "cfloat \<Rightarrow> cfloat \<Rightarrow> bool" where
  "flt (Finite x) (Finite y) = (x < y)"
| "flt (Finite x) PInf = True"
| "flt NInf (Finite y) = True"
| "flt NInf PInf = True"
| "flt _ _ = False"

fun feq :: "cfloat \<Rightarrow> cfloat \<Rightarrow> bool" where
  "feq (Finite x) (Finite y) = (x = y)"
| "feq PInf PInf = True"
| "feq NInf NInf = True"
| "feq _ _ = False"

definition fgt :: "cfloat \<Rightarrow> cfloat \<Rightarrow> bool" where
  "fgt a b = flt b a"

definition fle :: "cfloat \<Rightarrow> cfloat \<Rightarrow> bool" where
  "fle a b = (flt a b \<or> feq a b)"

definition fge :: "cfloat \<Rightarrow> cfloat \<Rightarrow> bool" where
  "fge a b = fle b a"

text \<open>
  \<open>std::min(a, b)\<close> is \<open>(b < a) ? b : a\<close> and \<open>std::max(a, b)\<close> is
  \<open>(a < b) ? b : a\<close>.
\<close>

definition std_min :: "cfloat \<Rightarrow> cfloat \<Rightarrow> cfloat" where
  "std_min a b = (if flt b a then b else a)"

definition std_max :: "cfloat \<Rightarrow> cfloat \<Rightarrow> cfloat" where
  "std_max a b = (if flt a b then b else a)"

section \<open>Configuration structures\<close>

text \<open>
  The caller's \<open>aec3_config_t\<close>, with the four members that \<open>aec3_create\<close> reads.
\<close>

record aec3_config_t =
  sample_rate :: c_int
  num_channels :: c_int
  export_linear :: bool
  suppression_level :: cfloat

text \<open>
  The engine's \<open>EchoCanceller3Config\<close>. Only the members that \<open>aec3_create\<close> assigns
  are named, each by its path in the structure; every other member lives in the
  extension part of the record and is never touched. The values of a default-constructed
  configuration are declared outside \<open>aec3_api.cc\<close>, so they are a parameter of the model.
\<close>

record EchoCanceller3Config =
  filter_export_linear_aec_output :: bool
  suppressor_normal_tuning_mask_lf_enr_transparent :: cfloat
  suppressor_normal_tuning_mask_lf_enr_suppress :: cfloat
  suppressor_normal_tuning_mask_hf_enr_transparent :: cfloat
  suppressor_normal_tuning_mask_hf_enr_suppress :: cfloat
  erle_max_l :: cfloat
  erle_max_h :: cfloat
  filter_main_leakage_converged :: cfloat
  filter_main_error_floor :: cfloat
  suppressor_high_bands_suppression_max_gain_during_echo :: cfloat
  suppressor_high_bands_suppression_anti_howling_gain :: cfloat
  echo_audibility_audibility_threshold_lf :: cfloat
  echo_audibility_audibility_threshold_mf :: cfloat
  echo_audibility_audibility_threshold_hf :: cfloat

section \<open>Tuning: lines 29 to 71 of \<open>aec3_create\<close>\<close>

text \<open>
  Line 34: the local \<open>suppression_level\<close> after 1.0 has been substituted for a level
  that is not greater than zero.
\<close>

definition defaulted_suppression_level :: "aec3_config_t \<Rightarrow> cfloat" where
  "defaulted_suppression_level config =
     (if fgt (suppression_level config) (Finite 0.0)
      then suppression_level config else Finite 1.0)"

text \<open>Line 35: the same local after the clamp.\<close>

definition clamped_suppression_level :: "aec3_config_t \<Rightarrow> cfloat" where
  "clamped_suppression_level config =
     std_max (Finite 0.0) (std_min (Finite 1.0) (defaulted_suppression_level config))"

text \<open>
  Lines 29 to 71: the local \<open>aec_config\<close> as it is handed to the factory, starting
  from the default-constructed configuration \<open>dflt\<close>.
\<close>

definition tuned_aec_config ::
  "'z EchoCanceller3Config_scheme \<Rightarrow> aec3_config_t \<Rightarrow> 'z EchoCanceller3Config_scheme" where
  "tuned_aec_config dflt config =
     (let aec_config = dflt\<lparr>filter_export_linear_aec_output := export_linear config\<rparr>;
          suppression_level = clamped_suppression_level config
      in if fge suppression_level (Finite 0.8) then
           aec_config
             \<lparr>suppressor_normal_tuning_mask_lf_enr_transparent := Finite 0.1,
              suppressor_normal_tuning_mask_lf_enr_suppress := Finite 0.2,
              suppressor_normal_tuning_mask_hf_enr_transparent := Finite 0.05,
              suppressor_normal_tuning_mask_hf_enr_suppress := Finite 0.08,
              erle_max_l := Finite 8.0,
              erle_max_h := Finite 4.0,
              filter_main_leakage_converged := Finite 0.00001,
              filter_main_error_floor := Finite 0.0005,
              suppressor_high_bands_suppression_max_gain_during_echo := Finite 0.1,
              suppressor_high_bands_suppression_anti_howling_gain := Finite 0.005,
              echo_audibility_audibility_threshold_lf := Finite 5.0,
              echo_audibility_audibility_threshold_mf := Finite 5.0,
              echo_audibility_audibility_threshold_hf := Finite 5.0\<rparr>
         else if fge suppression_level (Finite 0.5) then
           aec_config
             \<lparr>suppressor_normal_tuning_mask_lf_enr_transparent := Finite 0.2,
              suppressor_normal_tuning_mask_lf_enr_suppress := Finite 0.3,
              suppressor_normal_tuning_mask_hf_enr_transparent := Finite 0.06,
              suppressor_normal_tuning_mask_hf_enr_suppress := Finite 0.09,
              erle_max_l := Finite 6.0,
              erle_max_h := Finite 3.0,
              suppressor_high_bands_suppression_max_gain_during_echo := Finite 0.3\<rparr>
         else aec_config)"

section \<open>The collaborators\<close>

text \<open>
  The engine, the high-pass filter, the audio buffer and the audio frame are classes
  declared outside \<open>aec3_api.cc\<close>. Their states are the type parameters \<open>'ec\<close>,
  \<open>'hp\<close>, \<open>'ab\<close> and \<open>'af\<close>, and their constructors and member functions are the
  fields of one record of functions, a parameter of every operation below. A member
  function that receives an object through a pointer to non-const returns the new state
  of that object beside the new state of its receiver.

  An array of samples is seen through the pointer to it: a null pointer is \<open>None\<close>,
  any other pointer is the array it points to, a list whose length is the number of
  samples the array has room for. The function cannot see that length; a copy that
  runs past it is undefined behaviour, which the model reports as a fault. The array
  that \<open>data\<close> returns is the one inside the frame. Every member function is taken to
  return.
\<close>

type_synonym pcm = "int16_t list"

datatype SpeechType = kNormalSpeech
datatype VADActivity = kVadActive

record ('ec, 'hp, 'ab, 'af, 'z) collaborators =
  default_config :: "'z EchoCanceller3Config_scheme"
  Create :: "'z EchoCanceller3Config_scheme \<Rightarrow> c_int \<Rightarrow> c_int \<Rightarrow> c_int \<Rightarrow> 'ec"
  new_HighPassFilter :: "c_int \<Rightarrow> c_int \<Rightarrow> 'hp"
  new_AudioBuffer :: "c_int \<Rightarrow> c_int \<Rightarrow> c_int \<Rightarrow> c_int \<Rightarrow> c_int \<Rightarrow> c_int \<Rightarrow> 'ab"
  new_AudioFrame :: "'af"
  UpdateFrame ::
    "'af \<Rightarrow> 32 word \<Rightarrow> pcm option \<Rightarrow> size_t \<Rightarrow> c_int \<Rightarrow> SpeechType \<Rightarrow> VADActivity \<Rightarrow> size_t \<Rightarrow> 'af"
  data :: "'af \<Rightarrow> pcm"
  CopyFrom :: "'ab \<Rightarrow> 'af \<Rightarrow> 'ab \<times> 'af"
  CopyTo :: "'ab \<Rightarrow> 'af \<Rightarrow> 'ab \<times> 'af"
  SplitIntoFrequencyBands :: "'ab \<Rightarrow> 'ab"
  MergeFrequencyBands :: "'ab \<Rightarrow> 'ab"
  AnalyzeRender :: "'ec \<Rightarrow> 'ab \<Rightarrow> 'ec \<times> 'ab"
  AnalyzeCapture :: "'ec \<Rightarrow> 'ab \<Rightarrow> 'ec \<times> 'ab"
  Process :: "'hp \<Rightarrow> 'ab \<Rightarrow> bool \<Rightarrow> 'hp \<times> 'ab"
  SetAudioBufferDelay :: "'ec \<Rightarrow> c_int \<Rightarrow> 'ec"
  ProcessCapture :: "'ec \<Rightarrow> 'ab \<Rightarrow> 'ab \<Rightarrow> bool \<Rightarrow> 'ec \<times> 'ab \<times> 'ab"
  ProcessCapture_nullptr :: "'ec \<Rightarrow> 'ab \<Rightarrow> bool \<Rightarrow> 'ec \<times> 'ab"

text \<open>
  Every call that the three API functions make on a collaborator, on the allocator or on
  \<open>memcpy\<close> is recorded, in the order of execution, with the object it is made on and
  the scalar arguments it is made with.
\<close>

datatype frame_id = RefFrame | AecFrame
datatype buffer_id = RefAudio | AecAudio | AecLinearAudio
datatype caller_array = OutputFrame | LinearOutputFrame

datatype call =
    Call_new_aec3_handle
  | Call_Create c_int c_int c_int
  | Call_new_HighPassFilter c_int c_int
  | Call_new_AudioBuffer buffer_id c_int c_int
  | Call_UpdateFrame frame_id bool size_t c_int size_t
  | Call_CopyFrom buffer_id frame_id
  | Call_SplitIntoFrequencyBands buffer_id
  | Call_AnalyzeRender buffer_id
  | Call_MergeFrequencyBands buffer_id
  | Call_AnalyzeCapture buffer_id
  | Call_Process buffer_id bool
  | Call_SetAudioBufferDelay c_int
  | Call_ProcessCapture buffer_id "buffer_id option" bool
  | Call_CopyTo buffer_id frame_id
  | Call_memcpy caller_array frame_id size_t

section \<open>The handle\<close>

text \<open>
  \<open>struct aec3_handle\<close>. A \<open>unique_ptr\<close> member owns its object, so the object is
  part of the handle; \<open>aec_linear_audio\<close> is the one member that \<open>aec3_create\<close> may
  leave null.
\<close>

record ('ec, 'hp, 'ab, 'af) aec3_handle =
  echo_controller :: 'ec
  hp_filter :: 'hp
  ref_audio :: 'ab
  aec_audio :: 'ab
  aec_linear_audio :: "'ab option"
  ref_frame :: 'af
  aec_frame :: 'af
  sample_rate :: c_int
  num_channels :: c_int

section \<open>Creation and destruction\<close>

text \<open>
  Handles live in a heap of objects made by \<open>new\<close>. A handle pointer is \<open>None\<close> when
  null and an address otherwise. Addresses are handed out in increasing order and never
  reused, so a pointer to a deleted handle stays dangling.
\<close>

record ('ec, 'hp, 'ab, 'af) world =
  heap :: "nat \<Rightarrow> ('ec, 'hp, 'ab, 'af) aec3_handle option"
  next_addr :: nat
  calls :: "call list"

text \<open>The constant of lines 92 and 157.\<close>

definition kLinearOutputRateHz :: c_int where
  "kLinearOutputRateHz = 16000"

text \<open>
  Lines 22 to 100. \<open>StreamConfig\<close> only holds the rate and the channel count it is
  built from, so the buffers are built from those two values directly. Allocation is
  taken to succeed.
\<close>

definition aec3_create ::
  "('ec, 'hp, 'ab, 'af, 'z) collaborators \<Rightarrow> aec3_config_t option \<Rightarrow>
   ('ec, 'hp, 'ab, 'af) world \<Rightarrow> nat option \<times> ('ec, 'hp, 'ab, 'af) world" where
  "aec3_create E config w =
     (case config of
        None \<Rightarrow> (None, w)
      | Some c \<Rightarrow>
          (let rate = aec3_config_t.sample_rate c;
               channels = aec3_config_t.num_channels c;
               aec_config = tuned_aec_config (default_config E) c;
               handle =
                 \<lparr>echo_controller = Create E aec_config rate channels channels,
                  hp_filter = new_HighPassFilter E rate channels,
                  ref_audio = new_AudioBuffer E rate channels rate channels rate channels,
                  aec_audio = new_AudioBuffer E rate channels rate channels rate channels,
                  aec_linear_audio =
                    (if export_linear c
                     then Some (new_AudioBuffer E kLinearOutputRateHz channels
                                  kLinearOutputRateHz channels kLinearOutputRateHz channels)
                     else None),
                  ref_frame = new_AudioFrame E,
                  aec_frame = new_AudioFrame E,
                  sample_rate = rate,
                  num_channels = channels\<rparr>
           in (Some (next_addr w),
               w\<lparr>heap := (heap w)(next_addr w \<mapsto> handle),
                 next_addr := Suc (next_addr w),
                 calls := calls w @
                   [Call_new_aec3_handle,
                    Call_Create rate channels channels,
                    Call_new_HighPassFilter rate channels,
                    Call_new_AudioBuffer RefAudio rate channels,
                    Call_new_AudioBuffer AecAudio rate channels] @
                   (if export_linear c
                    then [Call_new_AudioBuffer AecLinearAudio kLinearOutputRateHz channels]
                    else [])\<rparr>)))"

text \<open>
  The two ways in which the code of \<open>aec3_api.cc\<close> itself runs into undefined
  behaviour: a \<open>delete\<close> of a pointer that is neither null nor a live object, and a
  \<open>memcpy\<close> that runs past the end of its source or of its destination.
\<close>

datatype fault = Invalid_delete | Out_of_bounds_copy

text \<open>
  \<open>delete\<close> on a null pointer does nothing; on a live handle it destroys the handle
  with the objects its members own; on any other pointer, such as one already deleted,
  the behaviour is undefined, which the model reports as a fault.
\<close>

definition aec3_destroy ::
  "nat option \<Rightarrow> ('ec, 'hp, 'ab, 'af) world \<Rightarrow> fault + ('ec, 'hp, 'ab, 'af) world" where
  "aec3_destroy handle w =
     (case handle of
        None \<Rightarrow> Inr w
      | Some a \<Rightarrow>
          (case heap w a of
             None \<Rightarrow> Inl Invalid_delete
           | Some h \<Rightarrow> Inr (w\<lparr>heap := (heap w)(a := None)\<rparr>)))"

section \<open>Frame processing\<close>

text \<open>
  The quotient of two \<open>int\<close>s truncates towards zero.
\<close>

definition c_int_div :: "c_int \<Rightarrow> c_int \<Rightarrow> c_int" where
  "c_int_div a b = word_of_int (sint a sdiv sint b)"

text \<open>
  \<open>memcpy\<close> counts bytes. An \<open>int16_t\<close> occupies two bytes, the low one first. A
  copy of \<open>n\<close> bytes that fits into both arrays replaces the first \<open>n\<close> bytes of the
  destination and leaves the others; a copy that does not fit is a fault.
\<close>

definition bytes_of :: "pcm \<Rightarrow> nat \<Rightarrow> 8 word" where
  "bytes_of a k = (if even k then ucast (a ! (k div 2)) else ucast (drop_bit 8 (a ! (k div 2))))"

definition copied_byte :: "pcm \<Rightarrow> pcm \<Rightarrow> nat \<Rightarrow> nat \<Rightarrow> 8 word" where
  "copied_byte dest src n k = (if k < n then bytes_of src k else bytes_of dest k)"

definition memcpy :: "pcm \<Rightarrow> pcm \<Rightarrow> size_t \<Rightarrow> fault + pcm" where
  "memcpy dest src n =
     (if unat n \<le> 2 * length dest \<and> unat n \<le> 2 * length src
      then Inr (map (\<lambda>i. word_cat (copied_byte dest src (unat n) (2 * i + 1))
                                  (copied_byte dest src (unat n) (2 * i)))
                  [0..<length dest])
      else Inl Out_of_bounds_copy)"

text \<open>
  What one call of \<open>aec3_process_frame\<close> works on: the members of the handle, the
  caller's two output arrays, and the calls made so far.
\<close>

record ('ec, 'hp, 'ab, 'af) run = "('ec, 'hp, 'ab, 'af) aec3_handle" +
  output_array :: pcm
  linear_output_array :: "pcm option"
  made :: "call list"

text \<open>
  What the caller holds after the call: the returned status, the handle's object, the
  two output arrays, and the calls that were made.
\<close>

record ('ec, 'hp, 'ab, 'af) outcome =
  status :: c_int
  handle_after :: "('ec, 'hp, 'ab, 'af) aec3_handle option"
  output_frame_after :: "pcm option"
  linear_output_frame_after :: "pcm option"
  calls_made :: "call list"

text \<open>The run when the null checks of line 111 have passed: no call made yet.\<close>

definition start_run ::
  "('ec, 'hp, 'ab, 'af) aec3_handle \<Rightarrow> pcm \<Rightarrow> pcm option \<Rightarrow> ('ec, 'hp, 'ab, 'af) run" where
  "start_run h out lin =
     aec3_handle.extend h \<lparr>output_array = out, linear_output_array = lin, made = []\<rparr>"

text \<open>Lines 115 to 122, ``Update frames with new audio data''.\<close>

definition update_frames ::
  "('ec, 'hp, 'ab, 'af, 'z) collaborators \<Rightarrow> pcm option \<Rightarrow> pcm option \<Rightarrow> size_t \<Rightarrow>
   ('ec, 'hp, 'ab, 'af) run \<Rightarrow> ('ec, 'hp, 'ab, 'af) run" where
  "update_frames E reference_frame capture_frame frame_size s =
     (let s = s\<lparr>ref_frame := UpdateFrame E (ref_frame s) 0 reference_frame frame_size
                                (sample_rate s) kNormalSpeech kVadActive 1,
                made := made s @
                  [Call_UpdateFrame RefFrame (reference_frame \<noteq> None) frame_size (sample_rate s) 1]\<rparr>
      in s\<lparr>aec_frame := UpdateFrame E (aec_frame s) 0 capture_frame frame_size
                                (sample_rate s) kNormalSpeech kVadActive 1,
            made := made s @
              [Call_UpdateFrame AecFrame (capture_frame \<noteq> None) frame_size (sample_rate s) 1]\<rparr>)"

text \<open>Lines 124 to 126, ``Copy frames to audio buffers''.\<close>

definition copy_frames_to_buffers ::
  "('ec, 'hp, 'ab, 'af, 'z) collaborators \<Rightarrow>
   ('ec, 'hp, 'ab, 'af) run \<Rightarrow> ('ec, 'hp, 'ab, 'af) run" where
  "copy_frames_to_buffers E s =
     (let s = (case CopyFrom E (ref_audio s) (ref_frame s) of (ab, af) \<Rightarrow>
                 s\<lparr>ref_audio := ab, ref_frame := af,
                   made := made s @ [Call_CopyFrom RefAudio RefFrame]\<rparr>)
      in (case CopyFrom E (aec_audio s) (aec_frame s) of (ab, af) \<Rightarrow>
            s\<lparr>aec_audio := ab, aec_frame := af,
              made := made s @ [Call_CopyFrom AecAudio AecFrame]\<rparr>))"

text \<open>Lines 128 to 131, ``Process audio'', the reference buffer.\<close>

definition process_render ::
  "('ec, 'hp, 'ab, 'af, 'z) collaborators \<Rightarrow>
   ('ec, 'hp, 'ab, 'af) run \<Rightarrow> ('ec, 'hp, 'ab, 'af) run" where
  "process_render E s =
     (let s = s\<lparr>ref_audio := SplitIntoFrequencyBands E (ref_audio s),
                made := made s @ [Call_SplitIntoFrequencyBands RefAudio]\<rparr>;
          s = (case AnalyzeRender E (echo_controller s) (ref_audio s) of (ec, ab) \<Rightarrow>
                 s\<lparr>echo_controller := ec, ref_audio := ab,
                   made := made s @ [Call_AnalyzeRender RefAudio]\<rparr>)
      in s\<lparr>ref_audio := MergeFrequencyBands E (ref_audio s),
            made := made s @ [Call_MergeFrequencyBands RefAudio]\<rparr>)"

text \<open>Lines 133 to 138: the capture buffer up to the delay update.\<close>

definition prepare_capture ::
  "('ec, 'hp, 'ab, 'af, 'z) collaborators \<Rightarrow> c_int \<Rightarrow>
   ('ec, 'hp, 'ab, 'af) run \<Rightarrow> ('ec, 'hp, 'ab, 'af) run" where
  "prepare_capture E buffer_delay s =
     (let s = (case AnalyzeCapture E (echo_controller s) (aec_audio s) of (ec, ab) \<Rightarrow>
                 s\<lparr>echo_controller := ec, aec_audio := ab,
                   made := made s @ [Call_AnalyzeCapture AecAudio]\<rparr>);
          s = s\<lparr>aec_audio := SplitIntoFrequencyBands E (aec_audio s),
                made := made s @ [Call_SplitIntoFrequencyBands AecAudio]\<rparr>;
          s = (case Process E (hp_filter s) (aec_audio s) True of (hp, ab) \<Rightarrow>
                 s\<lparr>hp_filter := hp, aec_audio := ab,
                   made := made s @ [Call_Process AecAudio True]\<rparr>)
      in s\<lparr>echo_controller := SetAudioBufferDelay E (echo_controller s) buffer_delay,
            made := made s @ [Call_SetAudioBufferDelay buffer_delay]\<rparr>)"

text \<open>Lines 140 to 148: the suppression stage, in one of its two forms, and the merge.\<close>

definition process_capture ::
  "('ec, 'hp, 'ab, 'af, 'z) collaborators \<Rightarrow>
   ('ec, 'hp, 'ab, 'af) run \<Rightarrow> ('ec, 'hp, 'ab, 'af) run" where
  "process_capture E s =
     (let s = (case aec_linear_audio s of
                 Some lbuf \<Rightarrow>
                   (case ProcessCapture E (echo_controller s) (aec_audio s) lbuf False of
                      (ec, ab, lb) \<Rightarrow>
                        s\<lparr>echo_controller := ec, aec_audio := ab, aec_linear_audio := Some lb,
                          made := made s @
                            [Call_ProcessCapture AecAudio (Some AecLinearAudio) False]\<rparr>)
               | None \<Rightarrow>
                   (case ProcessCapture_nullptr E (echo_controller s) (aec_audio s) False of
                      (ec, ab) \<Rightarrow>
                        s\<lparr>echo_controller := ec, aec_audio := ab,
                          made := made s @ [Call_ProcessCapture AecAudio None False]\<rparr>))
      in s\<lparr>aec_audio := MergeFrequencyBands E (aec_audio s),
            made := made s @ [Call_MergeFrequencyBands AecAudio]\<rparr>)"

text \<open>Lines 150 and 151: the capture buffer is copied into the staging frame.\<close>

definition copy_to_frame ::
  "('ec, 'hp, 'ab, 'af, 'z) collaborators \<Rightarrow>
   ('ec, 'hp, 'ab, 'af) run \<Rightarrow> ('ec, 'hp, 'ab, 'af) run" where
  "copy_to_frame E s =
     (case CopyTo E (aec_audio s) (aec_frame s) of (ab, af) \<Rightarrow>
        s\<lparr>aec_audio := ab, aec_frame := af,
          made := made s @ [Call_CopyTo AecAudio AecFrame]\<rparr>)"

text \<open>
  Lines 152 and 153: the staging frame is copied into the caller's output array. The
  \<open>int\<close> \<open>num_channels\<close> is converted to \<open>size_t\<close> and the product wraps.
\<close>

definition copy_to_output ::
  "('ec, 'hp, 'ab, 'af, 'z) collaborators \<Rightarrow> size_t \<Rightarrow>
   ('ec, 'hp, 'ab, 'af) run \<Rightarrow> fault + ('ec, 'hp, 'ab, 'af) run" where
  "copy_to_output E frame_size s =
     (let n = frame_size * scast (num_channels s) * 2
      in case memcpy (output_array s) (data E (aec_frame s)) n of
           Inl f \<Rightarrow> Inl f
         | Inr out \<Rightarrow>
             Inr (s\<lparr>output_array := out,
                    made := made s @ [Call_memcpy OutputFrame AecFrame n]\<rparr>))"

text \<open>
  Lines 158 to 161: the staging frame is set to 160 samples per channel at 16000 Hz
  and the linear buffer \<open>lbuf\<close> is copied into it.
\<close>

definition stage_linear_output ::
  "('ec, 'hp, 'ab, 'af, 'z) collaborators \<Rightarrow> 'ab \<Rightarrow>
   ('ec, 'hp, 'ab, 'af) run \<Rightarrow> ('ec, 'hp, 'ab, 'af) run" where
  "stage_linear_output E lbuf s =
     (let s = s\<lparr>aec_frame := UpdateFrame E (aec_frame s) 0 None
                               (scast (c_int_div kLinearOutputRateHz 100))
                               kLinearOutputRateHz kNormalSpeech kVadActive 1,
                 made := made s @
                   [Call_UpdateFrame AecFrame False
                      (scast (c_int_div kLinearOutputRateHz 100)) kLinearOutputRateHz 1]\<rparr>
      in (case CopyTo E lbuf (aec_frame s) of (ab, af) \<Rightarrow>
            s\<lparr>aec_linear_audio := Some ab, aec_frame := af,
              made := made s @ [Call_CopyTo AecLinearAudio AecFrame]\<rparr>))"

text \<open>Lines 155 to 163, ``Copy linear output if requested''.\<close>

definition copy_linear_output ::
  "('ec, 'hp, 'ab, 'af, 'z) collaborators \<Rightarrow>
   ('ec, 'hp, 'ab, 'af) run \<Rightarrow> fault + ('ec, 'hp, 'ab, 'af) run" where
  "copy_linear_output E s =
     (case (linear_output_array s, aec_linear_audio s) of
        (Some lout, Some lbuf) \<Rightarrow>
          (let s = stage_linear_output E lbuf s
           in case memcpy lout (data E (aec_frame s)) 320 of
                Inl f \<Rightarrow> Inl f
              | Inr lo \<Rightarrow>
                  Inr (s\<lparr>linear_output_array := Some lo,
                         made := made s @ [Call_memcpy LinearOutputFrame AecFrame 320]\<rparr>))
      | _ \<Rightarrow> Inr s)"

text \<open>
  Lines 102 to 166. A pointer argument is \<open>None\<close> when null; the handle pointer is
  otherwise the handle object it points to. The call either returns, with the outcome
  the caller then holds, or runs into a fault.
\<close>

definition aec3_process_frame ::
  "('ec, 'hp, 'ab, 'af, 'z) collaborators \<Rightarrow> ('ec, 'hp, 'ab, 'af) aec3_handle option \<Rightarrow>
   pcm option \<Rightarrow> pcm option \<Rightarrow> pcm option \<Rightarrow> pcm option \<Rightarrow> size_t \<Rightarrow> c_int \<Rightarrow>
   fault + ('ec, 'hp, 'ab, 'af) outcome" where
  "aec3_process_frame E handle reference_frame capture_frame output_frame linear_output_frame
     frame_size buffer_delay =
   (if handle = None \<or> reference_frame = None \<or> capture_frame = None \<or> output_frame = None
    then Inr \<lparr>status = - 1, handle_after = handle, output_frame_after = output_frame,
              linear_output_frame_after = linear_output_frame, calls_made = []\<rparr>
    else
      let s = start_run (the handle) (the output_frame) linear_output_frame;
          s = update_frames E reference_frame capture_frame frame_size s;
          s = copy_frames_to_buffers E s;
          s = process_render E s;
          s = prepare_capture E buffer_delay s;
          s = process_capture E s;
          s = copy_to_frame E s
      in case copy_to_output E frame_size s of
           Inl f \<Rightarrow> Inl f
         | Inr s \<Rightarrow>
             (case copy_linear_output E s of
                Inl f \<Rightarrow> Inl f
              | Inr s \<Rightarrow>
                  Inr \<lparr>status = 0, handle_after = Some (aec3_handle.truncate s),
                        output_frame_after = Some (output_array s),
                        linear_output_frame_after = linear_output_array s,
                        calls_made = made s\<rparr>))"

section \<open>Notions used to state the properties\<close>

text \<open>
  The two sets of overrides as the specification lists them: the ``maximum'' profile
  and the ``medium'' profile, each applied to a configuration \<open>c\<close>.
\<close>

definition maximum_profile ::
  "'z EchoCanceller3Config_scheme \<Rightarrow> 'z EchoCanceller3Config_scheme" where
  "maximum_profile c =
     c\<lparr>suppressor_normal_tuning_mask_lf_enr_transparent := Finite 0.1,
       suppressor_normal_tuning_mask_lf_enr_suppress := Finite 0.2,
       suppressor_normal_tuning_mask_hf_enr_transparent := Finite 0.05,
       suppressor_normal_tuning_mask_hf_enr_suppress := Finite 0.08,
       erle_max_l := Finite 8.0,
       erle_max_h := Finite 4.0,
       filter_main_leakage_converged := Finite 0.00001,
       filter_main_error_floor := Finite 0.0005,
       suppressor_high_bands_suppression_max_gain_during_echo := Finite 0.1,
       suppressor_high_bands_suppression_anti_howling_gain := Finite 0.005,
       echo_audibility_audibility_threshold_lf := Finite 5.0,
       echo_audibility_audibility_threshold_mf := Finite 5.0,
       echo_audibility_audibility_threshold_hf := Finite 5.0\<rparr>"

definition medium_profile ::
  "'z EchoCanceller3Config_scheme \<Rightarrow> 'z EchoCanceller3Config_scheme" where
  "medium_profile c =
     c\<lparr>suppressor_normal_tuning_mask_lf_enr_transparent := Finite 0.2,
       suppressor_normal_tuning_mask_lf_enr_suppress := Finite 0.3,
       suppressor_normal_tuning_mask_hf_enr_transparent := Finite 0.06,
       suppressor_normal_tuning_mask_hf_enr_suppress := Finite 0.09,
       erle_max_l := Finite 6.0,
       erle_max_h := Finite 3.0,
       suppressor_high_bands_suppression_max_gain_during_echo := Finite 0.3\<rparr>"


text \<open>
  Configuration \<open>c2\<close> is at least as aggressive as \<open>c1\<close>: no threshold is higher and
  no ERLE ceiling is lower.
\<close>

definition at_least_as_aggressive ::
  "'z EchoCanceller3Config_scheme \<Rightarrow> 'z EchoCanceller3Config_scheme \<Rightarrow> bool" where
  "at_least_as_aggressive c2 c1 =
     (fle (suppressor_normal_tuning_mask_lf_enr_transparent c2)
          (suppressor_normal_tuning_mask_lf_enr_transparent c1) \<and>
      fle (suppressor_normal_tuning_mask_lf_enr_suppress c2)
          (suppressor_normal_tuning_mask_lf_enr_suppress c1) \<and>
      fle (suppressor_normal_tuning_mask_hf_enr_transparent c2)
          (suppressor_normal_tuning_mask_hf_enr_transparent c1) \<and>
      fle (suppressor_normal_tuning_mask_hf_enr_suppress c2)
          (suppressor_normal_tuning_mask_hf_enr_suppress c1) \<and>
      fle (echo_audibility_audibility_threshold_lf c2)
          (echo_audibility_audibility_threshold_lf c1) \<and>
      fle (echo_audibility_audibility_threshold_mf c2)
          (echo_audibility_audibility_threshold_mf c1) \<and>
      fle (echo_audibility_audibility_threshold_hf c2)
          (echo_audibility_audibility_threshold_hf c1) \<and>
      fle (erle_max_l c1) (erle_max_l c2) \<and>
      fle (erle_max_h c1) (erle_max_h c2))"






text \<open>Call \<open>a\<close> is made before call \<open>b\<close> in a list of calls.\<close>

fun precedes :: "call \<Rightarrow> call \<Rightarrow> call list \<Rightarrow> bool" where
  "precedes a b [] = False"
| "precedes a b (x # xs) = ((x = a \<and> b \<in> set xs) \<or> precedes a b xs)"

text \<open>A call that writes into the caller's linear output array.\<close>

fun writes_linear_output :: "call \<Rightarrow> bool" where
  "writes_linear_output (Call_memcpy LinearOutputFrame f n) = True"
| "writes_linear_output _ = False"

text \<open>
  The run of a call with non-null arguments when line 152 is reached: everything up to
  the copy of the capture buffer into the staging frame has been done.
\<close>

definition run_to_line_152 ::
  "('ec, 'hp, 'ab, 'af, 'z) collaborators \<Rightarrow> ('ec, 'hp, 'ab, 'af) aec3_handle \<Rightarrow>
   pcm option \<Rightarrow> pcm option \<Rightarrow> pcm \<Rightarrow> pcm option \<Rightarrow> size_t \<Rightarrow> c_int \<Rightarrow>
   ('ec, 'hp, 'ab, 'af) run" where
  "run_to_line_152 E h reference_frame capture_frame out lin frame_size buffer_delay =
     copy_to_frame E
       (process_capture E
         (prepare_capture E buffer_delay
           (process_render E
             (copy_frames_to_buffers E
               (update_frames E reference_frame capture_frame frame_size
                 (start_run h out lin))))))"

text \<open>
  The copy of lines 152 and 153 fits: its byte count is within the caller's output
  array and within the array of the staging frame.
\<close>

definition output_copy_fits ::
  "('ec, 'hp, 'ab, 'af, 'z) collaborators \<Rightarrow> ('ec, 'hp, 'ab, 'af) aec3_handle \<Rightarrow>
   pcm option \<Rightarrow> pcm option \<Rightarrow> pcm \<Rightarrow> pcm option \<Rightarrow> size_t \<Rightarrow> c_int \<Rightarrow> bool" where
  "output_copy_fits E h reference_frame capture_frame out lin frame_size buffer_delay =
     (unat (frame_size * scast (num_channels h) * 2) \<le> 2 * length out \<and>
      unat (frame_size * scast (num_channels h) * 2) \<le>
        2 * length (data E (aec_frame
              (run_to_line_152 E h reference_frame capture_frame out lin frame_size
                 buffer_delay))))"

text \<open>
  What the specification says lines 158 to 161 make of the linear buffer and of the
  staging frame, when the handle has a linear buffer: the frame is set to 160 samples
  per channel at 16000 Hz and the linear buffer is copied into it.
\<close>

definition linear_staging ::
  "('ec, 'hp, 'ab, 'af, 'z) collaborators \<Rightarrow> ('ec, 'hp, 'ab, 'af) aec3_handle \<Rightarrow>
   pcm option \<Rightarrow> pcm option \<Rightarrow> pcm \<Rightarrow> pcm option \<Rightarrow> size_t \<Rightarrow> c_int \<Rightarrow>
   ('ab \<times> 'af) option" where
  "linear_staging E h reference_frame capture_frame out lin frame_size buffer_delay =
     (let s = run_to_line_152 E h reference_frame capture_frame out lin frame_size buffer_delay
      in case aec_linear_audio s of
           None \<Rightarrow> None
         | Some lbuf \<Rightarrow>
             Some (CopyTo E lbuf
                     (UpdateFrame E (aec_frame s) 0 None 160 16000 kNormalSpeech kVadActive 1)))"

text \<open>
  The copy of line 162, when it is made, fits: 320 bytes, 160 samples, are within the
  caller's linear output array and within the array of the staging frame.
\<close>

definition linear_copy_fits ::
  "('ec, 'hp, 'ab, 'af, 'z) collaborators \<Rightarrow> ('ec, 'hp, 'ab, 'af) aec3_handle \<Rightarrow>
   pcm option \<Rightarrow> pcm option \<Rightarrow> pcm \<Rightarrow> pcm option \<Rightarrow> size_t \<Rightarrow> c_int \<Rightarrow> bool" where
  "linear_copy_fits E h reference_frame capture_frame out lin frame_size buffer_delay =
     (case (lin, linear_staging E h reference_frame capture_frame out lin frame_size
                   buffer_delay) of
        (Some lout, Some (ab, af)) \<Rightarrow> 160 \<le> length lout \<and> 160 \<le> length (data E af)
      | _ \<Rightarrow> True)"

text \<open>A client that destroys the same handle twice.\<close>

definition destroy_twice ::
  "nat option \<Rightarrow> ('ec, 'hp, 'ab, 'af) world \<Rightarrow> fault + ('ec, 'hp, 'ab, 'af) world" where
  "destroy_twice handle w =
     (case aec3_destroy handle w of
        Inl f \<Rightarrow> Inl f
      | Inr w' \<Rightarrow> aec3_destroy handle w')"

section \<open>Concrete inputs\<close>

text \<open>
  A default configuration for the examples, a set of collaborators small enough to
  evaluate, and the inputs the examples run on. The engine and the filter count the
  calls made on them, a buffer holds one sample value, and a frame is an array of 480
  samples. The ranges of the examples are wide ones.
\<close>

definition example_default_config :: EchoCanceller3Config where
  "example_default_config =
     \<lparr>filter_export_linear_aec_output = False,
      suppressor_normal_tuning_mask_lf_enr_transparent = Finite 0.3,
      suppressor_normal_tuning_mask_lf_enr_suppress = Finite 0.4,
      suppressor_normal_tuning_mask_hf_enr_transparent = Finite 0.07,
      suppressor_normal_tuning_mask_hf_enr_suppress = Finite 0.1,
      erle_max_l = Finite 4.0,
      erle_max_h = Finite 1.5,
      filter_main_leakage_converged = Finite 0.00005,
      filter_main_error_floor = Finite 0.001,
      suppressor_high_bands_suppression_max_gain_during_echo = Finite 1.0,
      suppressor_high_bands_suppression_anti_howling_gain = Finite 0.01,
      echo_audibility_audibility_threshold_lf = Finite 10,
      echo_audibility_audibility_threshold_mf = Finite 10,
      echo_audibility_audibility_threshold_hf = Finite 10\<rparr>"



definition example_config :: "bool \<Rightarrow> cfloat \<Rightarrow> aec3_config_t" where
  "example_config want_linear level =
     \<lparr>aec3_config_t.sample_rate = 48000, aec3_config_t.num_channels = 1,
      export_linear = want_linear, suppression_level = level\<rparr>"

definition silence :: pcm where
  "silence = replicate 480 0"

definition tone :: pcm where
  "tone = replicate 480 7"

definition constant_frame :: "int16_t \<Rightarrow> pcm" where
  "constant_frame v = replicate 480 v"

definition toy_UpdateFrame ::
  "pcm \<Rightarrow> 32 word \<Rightarrow> pcm option \<Rightarrow> size_t \<Rightarrow> c_int \<Rightarrow> SpeechType \<Rightarrow> VADActivity \<Rightarrow> size_t \<Rightarrow> pcm" where
  "toy_UpdateFrame af ts d n rate st vad channels = (case d of None \<Rightarrow> silence | Some p \<Rightarrow> p)"

definition toy_Create :: "EchoCanceller3Config \<Rightarrow> c_int \<Rightarrow> c_int \<Rightarrow> c_int \<Rightarrow> nat" where
  "toy_Create cfg rate render capture = 0"

definition toy_new_HighPassFilter :: "c_int \<Rightarrow> c_int \<Rightarrow> nat" where
  "toy_new_HighPassFilter rate channels = 0"

definition toy_new_AudioBuffer ::
  "c_int \<Rightarrow> c_int \<Rightarrow> c_int \<Rightarrow> c_int \<Rightarrow> c_int \<Rightarrow> c_int \<Rightarrow> int16_t" where
  "toy_new_AudioBuffer r1 c1 r2 c2 r3 c3 = 0"

definition toy_data :: "pcm \<Rightarrow> pcm" where
  "toy_data af = af"

definition toy_CopyFrom :: "int16_t \<Rightarrow> pcm \<Rightarrow> int16_t \<times> pcm" where
  "toy_CopyFrom ab af = (af ! 0, af)"

definition toy_CopyTo :: "int16_t \<Rightarrow> pcm \<Rightarrow> int16_t \<times> pcm" where
  "toy_CopyTo ab af = (ab, constant_frame ab)"

definition toy_bands :: "int16_t \<Rightarrow> int16_t" where
  "toy_bands ab = ab"

definition toy_Analyze :: "nat \<Rightarrow> int16_t \<Rightarrow> nat \<times> int16_t" where
  "toy_Analyze ec ab = (Suc ec, ab)"

definition toy_Process :: "nat \<Rightarrow> int16_t \<Rightarrow> bool \<Rightarrow> nat \<times> int16_t" where
  "toy_Process hp ab use_split_band_data = (Suc hp, ab)"

definition toy_SetAudioBufferDelay :: "nat \<Rightarrow> c_int \<Rightarrow> nat" where
  "toy_SetAudioBufferDelay ec delay = Suc ec"

definition toy_ProcessCapture :: "nat \<Rightarrow> int16_t \<Rightarrow> int16_t \<Rightarrow> bool \<Rightarrow> nat \<times> int16_t \<times> int16_t" where
  "toy_ProcessCapture ec ab lb level_change = (Suc ec, ab, ab)"

definition toy_ProcessCapture_nullptr :: "nat \<Rightarrow> int16_t \<Rightarrow> bool \<Rightarrow> nat \<times> int16_t" where
  "toy_ProcessCapture_nullptr ec ab level_change = (Suc ec, ab)"

definition toy :: "(nat, nat, int16_t, pcm, unit) collaborators" where
  "toy =
     \<lparr>default_config = example_default_config,
      Create = toy_Create,
      new_HighPassFilter = toy_new_HighPassFilter,
      new_AudioBuffer = toy_new_AudioBuffer,
      new_AudioFrame = silence,
      UpdateFrame = toy_UpdateFrame,
      data = toy_data,
      CopyFrom = toy_CopyFrom,
      CopyTo = toy_CopyTo,
      SplitIntoFrequencyBands = toy_bands,
      MergeFrequencyBands = toy_bands,
      AnalyzeRender = toy_Analyze,
      AnalyzeCapture = toy_Analyze,
      Process = toy_Process,
      SetAudioBufferDelay = toy_SetAudioBufferDelay,
      ProcessCapture = toy_ProcessCapture,
      ProcessCapture_nullptr = toy_ProcessCapture_nullptr\<rparr>"

definition empty_world :: "(nat, nat, int16_t, pcm) world" where
  "empty_world = \<lparr>heap = Map.empty, next_addr = 0, calls = []\<rparr>"

text \<open>
  The handle that \<open>aec3_create\<close> makes in the empty world, with and without linear
  output, at the level 0.9.
\<close>

definition example_world :: "bool \<Rightarrow> (nat, nat, int16_t, pcm) world" where
  "example_world want_linear =
     snd (aec3_create toy (Some (example_config want_linear (Finite 0.9))) empty_world)"

definition example_handle :: "bool \<Rightarrow> (nat, nat, int16_t, pcm) aec3_handle option" where
  "example_handle want_linear = heap (example_world want_linear) 0"

section \<open>The tuning profile\<close>

text \<open>
  \<open>tuned_aec_config\<close> chooses between the two profiles and no override, on the level
  that \<open>clamped_suppression_level\<close> computes.
\<close>

lemma tuned_cases:
  "tuned_aec_config dflt config =
     (let base = dflt\<lparr>filter_export_linear_aec_output := export_linear config\<rparr>;
          s = clamped_suppression_level config
      in if fge s (Finite 0.8) then maximum_profile base
         else if fge s (Finite 0.5) then medium_profile base else base)"
  by (simp add: tuned_aec_config_def maximum_profile_def medium_profile_def Let_def)

text \<open>
  The substitution and the clamp together: a finite level in the open interval from 0 to
  1 is kept, everything else, a NaN included, becomes 1.
\<close>

lemma clamped_cases:
  "clamped_suppression_level config =
     (case suppression_level config of
        Finite x \<Rightarrow> if x \<le> 0 then Finite 1 else if x < 1 then Finite x else Finite 1
      | _ \<Rightarrow> Finite 1)"
  by (cases "suppression_level config")
     (auto simp: clamped_suppression_level_def defaulted_suppression_level_def std_min_def std_max_def fgt_def)


text \<open>
  Claim C1. The selection has exactly three bands. A level that is at least 0.8 after
  the substitution and the clamp gives the maximum profile: the four mask thresholds
  0.1, 0.2, 0.05 and 0.08, the ERLE ceilings 8.0 and 4.0, the leakage 0.00001, the
  error floor 0.0005, the gains 0.1 and 0.005, and the three audibility thresholds 5.0.
  An input in [0.5, 0.8) gives the medium profile, which overrides the mask thresholds,
  the ERLE ceilings and the maximal gain during echo only and leaves every other member
  as the engine made it. An input in (0.0, 0.5) overrides nothing. Every input is in one
  of the three bands. (The linear-output flag of line 30 is set before the selection,
  in every band.)
\<close>

theorem C1_three_bands:
  "(fge (clamped_suppression_level config) (Finite 0.8) \<longrightarrow>
      tuned_aec_config dflt config =
        maximum_profile (dflt\<lparr>filter_export_linear_aec_output := export_linear config\<rparr>)) \<and>
   (fge (suppression_level config) (Finite 0.5) \<and> flt (suppression_level config) (Finite 0.8) \<longrightarrow>
      tuned_aec_config dflt config =
        medium_profile (dflt\<lparr>filter_export_linear_aec_output := export_linear config\<rparr>)) \<and>
   (fgt (suppression_level config) (Finite 0.0) \<and> flt (suppression_level config) (Finite 0.5) \<longrightarrow>
      tuned_aec_config dflt config =
        dflt\<lparr>filter_export_linear_aec_output := export_linear config\<rparr>) \<and>
   (fge (clamped_suppression_level config) (Finite 0.8) \<or>
    (fge (suppression_level config) (Finite 0.5) \<and> flt (suppression_level config) (Finite 0.8)) \<or>
    (fgt (suppression_level config) (Finite 0.0) \<and> flt (suppression_level config) (Finite 0.5)))"
  by (cases "suppression_level config")
     (auto simp: tuned_cases clamped_cases Let_def fge_def fle_def fgt_def)

theorem C1_three_bands_witness:
  "fge (clamped_suppression_level (example_config False (Finite 0.9))) (Finite 0.8) \<and>
   tuned_aec_config example_default_config (example_config False (Finite 0.9)) =
     maximum_profile example_default_config \<and>
   fge (Finite 0.6) (Finite 0.5) \<and> flt (Finite 0.6) (Finite 0.8) \<and>
   tuned_aec_config example_default_config (example_config False (Finite 0.6)) =
     medium_profile example_default_config \<and>
   fgt (Finite 0.3) (Finite 0.0) \<and> flt (Finite 0.3) (Finite 0.5) \<and>
   tuned_aec_config example_default_config (example_config False (Finite 0.3)) =
     example_default_config"
  using C1_three_bands [of "example_config False (Finite 0.9)" example_default_config]
        C1_three_bands [of "example_config False (Finite 0.6)" example_default_config]
        C1_three_bands [of "example_config False (Finite 0.3)" example_default_config]
  by (simp add: example_config_def example_default_config_def clamped_cases fge_def fle_def fgt_def)

text \<open>
  Claim C2. A configured level that is at most 0.0 is replaced by 1.0 and selects the
  maximum profile. The replacement comes first and the clamp second: a level above 1.0
  passes the replacement unchanged, is clamped to 1.0, and selects the maximum profile
  as well.
\<close>

theorem C2_sentinel_then_clamp:
  "(fle (suppression_level config) (Finite 0.0) \<longrightarrow>
      defaulted_suppression_level config = Finite 1.0 \<and>
      clamped_suppression_level config = Finite 1.0 \<and>
      tuned_aec_config dflt config =
        maximum_profile (dflt\<lparr>filter_export_linear_aec_output := export_linear config\<rparr>)) \<and>
   (fgt (suppression_level config) (Finite 1.0) \<longrightarrow>
      defaulted_suppression_level config = suppression_level config \<and>
      clamped_suppression_level config = Finite 1.0 \<and>
      tuned_aec_config dflt config =
        maximum_profile (dflt\<lparr>filter_export_linear_aec_output := export_linear config\<rparr>))"
  by (cases "suppression_level config")
     (auto simp: tuned_cases clamped_cases defaulted_suppression_level_def Let_def fge_def fle_def fgt_def)

theorem C2_sentinel_then_clamp_witness:
  "fle (Finite (- 2)) (Finite 0.0) \<and>
   defaulted_suppression_level (example_config False (Finite (- 2))) = Finite 1.0 \<and>
   clamped_suppression_level (example_config False (Finite (- 2))) = Finite 1.0 \<and>
   tuned_aec_config example_default_config (example_config False (Finite (- 2))) =
     maximum_profile example_default_config \<and>
   fgt (Finite 3) (Finite 1.0) \<and>
   defaulted_suppression_level (example_config False (Finite 3)) = Finite 3 \<and>
   clamped_suppression_level (example_config False (Finite 3)) = Finite 1.0 \<and>
   tuned_aec_config example_default_config (example_config False (Finite 3)) =
     maximum_profile example_default_config"
  using C2_sentinel_then_clamp [of "example_config False (Finite (- 2))" example_default_config]
        C2_sentinel_then_clamp [of "example_config False (Finite 3)" example_default_config]
  by (simp add: example_config_def example_default_config_def fle_def fgt_def)














text \<open>
  The hypothesis on the defaults cannot be dropped: with default audibility thresholds
  of 3, below the 5.0 of the maximum profile, the level 0.9 gets a higher audibility
  threshold than the level 0.6.
\<close>

lemma defaults_hypothesis_needed:
  "fle (clamped_suppression_level (example_config False (Finite 0.6)))
       (clamped_suppression_level (example_config False (Finite 0.9))) \<and>
   \<not> at_least_as_aggressive
     (tuned_aec_config (example_default_config
        \<lparr>echo_audibility_audibility_threshold_lf := Finite 3\<rparr>)
        (example_config False (Finite 0.9)))
     (tuned_aec_config (example_default_config
        \<lparr>echo_audibility_audibility_threshold_lf := Finite 3\<rparr>)
        (example_config False (Finite 0.6)))"
  by (simp add: tuned_cases clamped_cases Let_def fge_def fle_def example_config_def
        maximum_profile_def medium_profile_def at_least_as_aggressive_def
        example_default_config_def)

text \<open>
  Two positive input levels in order have effective levels in order, so the amended
  claim covers every pair of positive inputs.
\<close>

lemma clamped_mono:
  assumes "fgt (suppression_level c1) (Finite 0.0)"
    and "fle (suppression_level c1) (suppression_level c2)"
  shows "fle (clamped_suppression_level c1) (clamped_suppression_level c2)"
  using assms
  by (cases "suppression_level c1"; cases "suppression_level c2")
     (auto simp: clamped_cases fle_def fgt_def)

section \<open>Creation\<close>

text \<open>
  Claim C7. \<open>aec3_create\<close> with a null configuration returns the null handle and
  leaves the world as it was: no handle is allocated, no collaborator is constructed.
\<close>

theorem C7_create_null_config: "aec3_create E None w = (None, w)"
  by (simp add: aec3_create_def)

section \<open>Frame processing: the copy\<close>

text \<open>
  Two bytes make one sample: a copy of \<open>2 * m\<close> bytes that fits replaces the first
  \<open>m\<close> samples of the destination and leaves the samples behind them. A copy faults
  exactly when it does not fit.
\<close>

lemma cat_bytes: "word_cat (ucast (drop_bit 8 w) :: 8 word) (ucast w :: 8 word) = (w :: 16 word)"
  by (rule bit_word_eqI) (auto simp: bit_word_cat_iff bit_ucast_iff bit_drop_bit_eq)

lemma memcpy_samples:
  assumes "unat n = 2 * m" "m \<le> length dest" "m \<le> length src"
  shows "memcpy dest src n = Inr (take m src @ drop m dest)"
proof -
  have "map (\<lambda>i. word_cat (copied_byte dest src (2 * m) (2 * i + 1))
                           (copied_byte dest src (2 * m) (2 * i)))
          [0..<length dest] = take m src @ drop m dest"
    using assms(2,3)
    by (intro nth_equalityI)
       (auto simp: copied_byte_def bytes_of_def cat_bytes nth_append min_def)
  then show ?thesis
    using assms by (simp add: memcpy_def)
qed

lemma memcpy_320:
  "160 \<le> length dest \<Longrightarrow> 160 \<le> length src \<Longrightarrow>
   memcpy dest src 320 = Inr (take 160 src @ drop 160 dest)"
  by (rule memcpy_samples) simp_all

lemma memcpy_fits:
  "(\<exists>res. memcpy dest src n = Inr res) = (unat n \<le> 2 * length dest \<and> unat n \<le> 2 * length src)"
  by (simp add: memcpy_def)

lemma memcpy_fault:
  "(memcpy dest src n = Inl f) =
     (f = Out_of_bounds_copy \<and> \<not> (unat n \<le> 2 * length dest \<and> unat n \<le> 2 * length src))"
  by (auto simp: memcpy_def)

lemma length_memcpy: "memcpy dest src n = Inr res \<Longrightarrow> length res = length dest"
  by (auto simp: memcpy_def split: if_splits)

lemma memcpy_960:
  "480 \<le> length dest \<Longrightarrow> 480 \<le> length src \<Longrightarrow>
   memcpy dest src 960 = Inr (take 480 src @ drop 480 dest)"
  by (rule memcpy_samples) simp_all

lemma memcpy_0: "memcpy dest src 0 = Inr dest"
  using memcpy_samples [of 0 0 dest src] by simp

section \<open>Frame processing: what each group of lines does\<close>

text \<open>
  Every member of the handle, both arrays of the caller and the list of calls after each
  group of lines, in terms of their values before it.
\<close>

lemma start_run_fields:
  "echo_controller (start_run h out lin) = echo_controller h"
  "hp_filter (start_run h out lin) = hp_filter h"
  "ref_audio (start_run h out lin) = ref_audio h"
  "aec_audio (start_run h out lin) = aec_audio h"
  "aec_linear_audio (start_run h out lin) = aec_linear_audio h"
  "ref_frame (start_run h out lin) = ref_frame h"
  "aec_frame (start_run h out lin) = aec_frame h"
  "sample_rate (start_run h out lin) = sample_rate h"
  "num_channels (start_run h out lin) = num_channels h"
  "output_array (start_run h out lin) = out"
  "linear_output_array (start_run h out lin) = lin"
  "made (start_run h out lin) = []"
  by (simp_all add: start_run_def aec3_handle.extend_def)

lemma update_frames_fields:
  "echo_controller (update_frames E rf cf n s) = echo_controller s"
  "hp_filter (update_frames E rf cf n s) = hp_filter s"
  "ref_audio (update_frames E rf cf n s) = ref_audio s"
  "aec_audio (update_frames E rf cf n s) = aec_audio s"
  "aec_linear_audio (update_frames E rf cf n s) = aec_linear_audio s"
  "ref_frame (update_frames E rf cf n s) =
     UpdateFrame E (ref_frame s) 0 rf n (sample_rate s) kNormalSpeech kVadActive 1"
  "aec_frame (update_frames E rf cf n s) =
     UpdateFrame E (aec_frame s) 0 cf n (sample_rate s) kNormalSpeech kVadActive 1"
  "sample_rate (update_frames E rf cf n s) = sample_rate s"
  "num_channels (update_frames E rf cf n s) = num_channels s"
  "output_array (update_frames E rf cf n s) = output_array s"
  "linear_output_array (update_frames E rf cf n s) = linear_output_array s"
  "made (update_frames E rf cf n s) = made s @
     [Call_UpdateFrame RefFrame (rf \<noteq> None) n (sample_rate s) 1,
      Call_UpdateFrame AecFrame (cf \<noteq> None) n (sample_rate s) 1]"
  by (simp_all add: update_frames_def Let_def)

lemma copy_frames_to_buffers_fields:
  "echo_controller (copy_frames_to_buffers E s) = echo_controller s"
  "hp_filter (copy_frames_to_buffers E s) = hp_filter s"
  "ref_audio (copy_frames_to_buffers E s) = fst (CopyFrom E (ref_audio s) (ref_frame s))"
  "aec_audio (copy_frames_to_buffers E s) = fst (CopyFrom E (aec_audio s) (aec_frame s))"
  "aec_linear_audio (copy_frames_to_buffers E s) = aec_linear_audio s"
  "ref_frame (copy_frames_to_buffers E s) = snd (CopyFrom E (ref_audio s) (ref_frame s))"
  "aec_frame (copy_frames_to_buffers E s) = snd (CopyFrom E (aec_audio s) (aec_frame s))"
  "sample_rate (copy_frames_to_buffers E s) = sample_rate s"
  "num_channels (copy_frames_to_buffers E s) = num_channels s"
  "output_array (copy_frames_to_buffers E s) = output_array s"
  "linear_output_array (copy_frames_to_buffers E s) = linear_output_array s"
  "made (copy_frames_to_buffers E s) = made s @
     [Call_CopyFrom RefAudio RefFrame, Call_CopyFrom AecAudio AecFrame]"
  by (simp_all add: copy_frames_to_buffers_def Let_def split_beta)

lemma process_render_fields:
  "echo_controller (process_render E s) =
     fst (AnalyzeRender E (echo_controller s) (SplitIntoFrequencyBands E (ref_audio s)))"
  "hp_filter (process_render E s) = hp_filter s"
  "ref_audio (process_render E s) =
     MergeFrequencyBands E
       (snd (AnalyzeRender E (echo_controller s) (SplitIntoFrequencyBands E (ref_audio s))))"
  "aec_audio (process_render E s) = aec_audio s"
  "aec_linear_audio (process_render E s) = aec_linear_audio s"
  "ref_frame (process_render E s) = ref_frame s"
  "aec_frame (process_render E s) = aec_frame s"
  "sample_rate (process_render E s) = sample_rate s"
  "num_channels (process_render E s) = num_channels s"
  "output_array (process_render E s) = output_array s"
  "linear_output_array (process_render E s) = linear_output_array s"
  "made (process_render E s) = made s @
     [Call_SplitIntoFrequencyBands RefAudio, Call_AnalyzeRender RefAudio,
      Call_MergeFrequencyBands RefAudio]"
  by (simp_all add: process_render_def Let_def split_beta)

lemma prepare_capture_fields:
  "echo_controller (prepare_capture E d s) =
     SetAudioBufferDelay E (fst (AnalyzeCapture E (echo_controller s) (aec_audio s))) d"
  "hp_filter (prepare_capture E d s) =
     fst (Process E (hp_filter s)
            (SplitIntoFrequencyBands E (snd (AnalyzeCapture E (echo_controller s) (aec_audio s))))
            True)"
  "ref_audio (prepare_capture E d s) = ref_audio s"
  "aec_audio (prepare_capture E d s) =
     snd (Process E (hp_filter s)
            (SplitIntoFrequencyBands E (snd (AnalyzeCapture E (echo_controller s) (aec_audio s))))
            True)"
  "aec_linear_audio (prepare_capture E d s) = aec_linear_audio s"
  "ref_frame (prepare_capture E d s) = ref_frame s"
  "aec_frame (prepare_capture E d s) = aec_frame s"
  "sample_rate (prepare_capture E d s) = sample_rate s"
  "num_channels (prepare_capture E d s) = num_channels s"
  "output_array (prepare_capture E d s) = output_array s"
  "linear_output_array (prepare_capture E d s) = linear_output_array s"
  "made (prepare_capture E d s) = made s @
     [Call_AnalyzeCapture AecAudio, Call_SplitIntoFrequencyBands AecAudio,
      Call_Process AecAudio True, Call_SetAudioBufferDelay d]"
  by (simp_all add: prepare_capture_def Let_def split_beta)

lemma process_capture_fields:
  "echo_controller (process_capture E s) =
     (case aec_linear_audio s of
        Some lbuf \<Rightarrow> fst (ProcessCapture E (echo_controller s) (aec_audio s) lbuf False)
      | None \<Rightarrow> fst (ProcessCapture_nullptr E (echo_controller s) (aec_audio s) False))"
  "hp_filter (process_capture E s) = hp_filter s"
  "ref_audio (process_capture E s) = ref_audio s"
  "aec_audio (process_capture E s) =
     MergeFrequencyBands E
       (case aec_linear_audio s of
          Some lbuf \<Rightarrow> fst (snd (ProcessCapture E (echo_controller s) (aec_audio s) lbuf False))
        | None \<Rightarrow> snd (ProcessCapture_nullptr E (echo_controller s) (aec_audio s) False))"
  "aec_linear_audio (process_capture E s) =
     (case aec_linear_audio s of
        Some lbuf \<Rightarrow>
          Some (snd (snd (ProcessCapture E (echo_controller s) (aec_audio s) lbuf False)))
      | None \<Rightarrow> None)"
  "ref_frame (process_capture E s) = ref_frame s"
  "aec_frame (process_capture E s) = aec_frame s"
  "sample_rate (process_capture E s) = sample_rate s"
  "num_channels (process_capture E s) = num_channels s"
  "output_array (process_capture E s) = output_array s"
  "linear_output_array (process_capture E s) = linear_output_array s"
  "made (process_capture E s) = made s @
     [Call_ProcessCapture AecAudio
        (if aec_linear_audio s = None then None else Some AecLinearAudio) False,
      Call_MergeFrequencyBands AecAudio]"
  by (simp_all add: process_capture_def Let_def split_beta split: option.split)

lemma copy_to_frame_fields:
  "echo_controller (copy_to_frame E s) = echo_controller s"
  "hp_filter (copy_to_frame E s) = hp_filter s"
  "ref_audio (copy_to_frame E s) = ref_audio s"
  "aec_audio (copy_to_frame E s) = fst (CopyTo E (aec_audio s) (aec_frame s))"
  "aec_linear_audio (copy_to_frame E s) = aec_linear_audio s"
  "ref_frame (copy_to_frame E s) = ref_frame s"
  "aec_frame (copy_to_frame E s) = snd (CopyTo E (aec_audio s) (aec_frame s))"
  "sample_rate (copy_to_frame E s) = sample_rate s"
  "num_channels (copy_to_frame E s) = num_channels s"
  "output_array (copy_to_frame E s) = output_array s"
  "linear_output_array (copy_to_frame E s) = linear_output_array s"
  "made (copy_to_frame E s) = made s @ [Call_CopyTo AecAudio AecFrame]"
  by (simp_all add: copy_to_frame_def split_beta)

lemma stage_linear_output_fields:
  "echo_controller (stage_linear_output E lbuf s) = echo_controller s"
  "hp_filter (stage_linear_output E lbuf s) = hp_filter s"
  "ref_audio (stage_linear_output E lbuf s) = ref_audio s"
  "aec_audio (stage_linear_output E lbuf s) = aec_audio s"
  "aec_linear_audio (stage_linear_output E lbuf s) =
     Some (fst (CopyTo E lbuf
                  (UpdateFrame E (aec_frame s) 0 None 160 16000 kNormalSpeech kVadActive 1)))"
  "ref_frame (stage_linear_output E lbuf s) = ref_frame s"
  "aec_frame (stage_linear_output E lbuf s) =
     snd (CopyTo E lbuf
            (UpdateFrame E (aec_frame s) 0 None 160 16000 kNormalSpeech kVadActive 1))"
  "sample_rate (stage_linear_output E lbuf s) = sample_rate s"
  "num_channels (stage_linear_output E lbuf s) = num_channels s"
  "output_array (stage_linear_output E lbuf s) = output_array s"
  "linear_output_array (stage_linear_output E lbuf s) = linear_output_array s"
  "made (stage_linear_output E lbuf s) = made s @
     [Call_UpdateFrame AecFrame False 160 16000 1, Call_CopyTo AecLinearAudio AecFrame]"
  by (simp_all add: stage_linear_output_def Let_def split_beta c_int_div_def
        kLinearOutputRateHz_def)

lemma truncate_fields:
  "echo_controller (aec3_handle.truncate s) = echo_controller s"
  "hp_filter (aec3_handle.truncate s) = hp_filter s"
  "ref_audio (aec3_handle.truncate s) = ref_audio s"
  "aec_audio (aec3_handle.truncate s) = aec_audio s"
  "aec_linear_audio (aec3_handle.truncate s) = aec_linear_audio s"
  "ref_frame (aec3_handle.truncate s) = ref_frame s"
  "aec_frame (aec3_handle.truncate s) = aec_frame s"
  "sample_rate (aec3_handle.truncate s) = sample_rate s"
  "num_channels (aec3_handle.truncate s) = num_channels s"
  by (simp_all add: aec3_handle.truncate_def)

lemmas phase_fields = start_run_fields update_frames_fields copy_frames_to_buffers_fields
  process_render_fields prepare_capture_fields process_capture_fields copy_to_frame_fields

text \<open>The two copies: what a copy that returns leaves, and when a copy returns.\<close>

lemma copy_to_output_Inr:
  assumes "copy_to_output E n s = Inr s'"
  shows "memcpy (output_array s) (data E (aec_frame s)) (n * scast (num_channels s) * 2) =
           Inr (output_array s')"
    and "echo_controller s' = echo_controller s" "hp_filter s' = hp_filter s"
    and "ref_audio s' = ref_audio s" "aec_audio s' = aec_audio s"
    and "aec_linear_audio s' = aec_linear_audio s"
    and "ref_frame s' = ref_frame s" "aec_frame s' = aec_frame s"
    and "sample_rate s' = sample_rate s" "num_channels s' = num_channels s"
    and "linear_output_array s' = linear_output_array s"
    and "made s' = made s @ [Call_memcpy OutputFrame AecFrame (n * scast (num_channels s) * 2)]"
  using assms by (auto simp: copy_to_output_def Let_def split: sum.splits)

lemma copy_to_output_fits:
  "(\<exists>s'. copy_to_output E n s = Inr s') =
     (unat (n * scast (num_channels s) * 2) \<le> 2 * length (output_array s) \<and>
      unat (n * scast (num_channels s) * 2) \<le> 2 * length (data E (aec_frame s)))"
  by (auto simp: copy_to_output_def Let_def memcpy_def split: sum.splits)


lemma copy_linear_output_skip:
  "linear_output_array s = None \<or> aec_linear_audio s = None \<Longrightarrow> copy_linear_output E s = Inr s"
  by (auto simp: copy_linear_output_def split: option.split)

lemma copy_linear_output_run:
  assumes "linear_output_array s = Some lout" "aec_linear_audio s = Some lbuf"
  shows "copy_linear_output E s =
     (case memcpy lout (data E (aec_frame (stage_linear_output E lbuf s))) 320 of
        Inl f \<Rightarrow> Inl f
      | Inr lo \<Rightarrow>
          Inr ((stage_linear_output E lbuf s)
                 \<lparr>linear_output_array := Some lo,
                  made := made (stage_linear_output E lbuf s) @
                    [Call_memcpy LinearOutputFrame AecFrame 320]\<rparr>))"
  using assms by (simp add: copy_linear_output_def Let_def)

lemma copy_linear_output_kept:
  assumes "copy_linear_output E s = Inr s'"
  shows "echo_controller s' = echo_controller s" "hp_filter s' = hp_filter s"
    and "ref_audio s' = ref_audio s" "aec_audio s' = aec_audio s"
    and "ref_frame s' = ref_frame s"
    and "sample_rate s' = sample_rate s" "num_channels s' = num_channels s"
    and "output_array s' = output_array s"
    and "(aec_linear_audio s' = None) = (aec_linear_audio s = None)"
  using assms
  by (auto simp: copy_linear_output_def Let_def stage_linear_output_fields
           split: option.splits sum.splits)

lemma copy_linear_output_made:
  assumes "copy_linear_output E s = Inr s'"
  shows "made s' = made s @
     (if linear_output_array s \<noteq> None \<and> aec_linear_audio s \<noteq> None
      then [Call_UpdateFrame AecFrame False 160 16000 1,
            Call_CopyTo AecLinearAudio AecFrame,
            Call_memcpy LinearOutputFrame AecFrame 320]
      else [])"
  using assms
  by (auto simp: copy_linear_output_def Let_def stage_linear_output_fields
           split: option.splits sum.splits)

section \<open>Frame processing: the run up to line 152\<close>

lemma run_to_line_152_kept:
  "sample_rate (run_to_line_152 E h rf cf out lin n d) = sample_rate h"
  "num_channels (run_to_line_152 E h rf cf out lin n d) = num_channels h"
  "output_array (run_to_line_152 E h rf cf out lin n d) = out"
  "linear_output_array (run_to_line_152 E h rf cf out lin n d) = lin"
  "(aec_linear_audio (run_to_line_152 E h rf cf out lin n d) = None) = (aec_linear_audio h = None)"
  by (simp_all add: run_to_line_152_def phase_fields split: option.split)

text \<open>The calls up to line 152, in the order they are made.\<close>

lemma run_to_line_152_made:
  "made (run_to_line_152 E h rf cf out lin n d) =
     [Call_UpdateFrame RefFrame (rf \<noteq> None) n (sample_rate h) 1,
      Call_UpdateFrame AecFrame (cf \<noteq> None) n (sample_rate h) 1,
      Call_CopyFrom RefAudio RefFrame,
      Call_CopyFrom AecAudio AecFrame,
      Call_SplitIntoFrequencyBands RefAudio,
      Call_AnalyzeRender RefAudio,
      Call_MergeFrequencyBands RefAudio,
      Call_AnalyzeCapture AecAudio,
      Call_SplitIntoFrequencyBands AecAudio,
      Call_Process AecAudio True,
      Call_SetAudioBufferDelay d,
      Call_ProcessCapture AecAudio
        (if aec_linear_audio h = None then None else Some AecLinearAudio) False,
      Call_MergeFrequencyBands AecAudio,
      Call_CopyTo AecAudio AecFrame]"
  by (simp add: run_to_line_152_def phase_fields del: not_None_eq)

text \<open>
  The members of the handle at line 152 in closed form: which collaborator function
  was applied to which value.
\<close>

lemma run_to_line_152_state:
  "let ref1 = UpdateFrame E (ref_frame h) 0 rf n (sample_rate h) kNormalSpeech kVadActive 1;
       cap1 = UpdateFrame E (aec_frame h) 0 cf n (sample_rate h) kNormalSpeech kVadActive 1;
       ref_copied = CopyFrom E (ref_audio h) ref1;
       cap_copied = CopyFrom E (aec_audio h) cap1;
       render = AnalyzeRender E (echo_controller h) (SplitIntoFrequencyBands E (fst ref_copied));
       capture = AnalyzeCapture E (fst render) (fst cap_copied);
       filtered = Process E (hp_filter h) (SplitIntoFrequencyBands E (snd capture)) True;
       delayed = SetAudioBufferDelay E (fst capture) d;
       suppressed =
         (case aec_linear_audio h of
            Some lbuf \<Rightarrow> fst (snd (ProcessCapture E delayed (snd filtered) lbuf False))
          | None \<Rightarrow> snd (ProcessCapture_nullptr E delayed (snd filtered) False));
       copied = CopyTo E (MergeFrequencyBands E suppressed) (snd cap_copied)
   in echo_controller (run_to_line_152 E h rf cf out lin n d) =
        (case aec_linear_audio h of
           Some lbuf \<Rightarrow> fst (ProcessCapture E delayed (snd filtered) lbuf False)
         | None \<Rightarrow> fst (ProcessCapture_nullptr E delayed (snd filtered) False)) \<and>
      hp_filter (run_to_line_152 E h rf cf out lin n d) = fst filtered \<and>
      ref_audio (run_to_line_152 E h rf cf out lin n d) = MergeFrequencyBands E (snd render) \<and>
      ref_frame (run_to_line_152 E h rf cf out lin n d) = snd ref_copied \<and>
      aec_audio (run_to_line_152 E h rf cf out lin n d) = fst copied \<and>
      aec_frame (run_to_line_152 E h rf cf out lin n d) = snd copied \<and>
      aec_linear_audio (run_to_line_152 E h rf cf out lin n d) =
        (case aec_linear_audio h of
           Some lbuf \<Rightarrow> Some (snd (snd (ProcessCapture E delayed (snd filtered) lbuf False)))
         | None \<Rightarrow> None)"
  by (simp add: run_to_line_152_def phase_fields Let_def split: option.split)

lemma linear_staging_Some:
  assumes "aec_linear_audio (run_to_line_152 E h rf cf out lin n d) = Some lbuf"
  shows "linear_staging E h rf cf out lin n d =
     Some (CopyTo E lbuf
             (UpdateFrame E (aec_frame (run_to_line_152 E h rf cf out lin n d)) 0 None 160 16000
                kNormalSpeech kVadActive 1))"
  using assms by (simp add: linear_staging_def Let_def)

lemma linear_staging_None:
  "(linear_staging E h rf cf out lin n d = None) = (aec_linear_audio h = None)"
  using run_to_line_152_kept(5) [of E h rf cf out lin n d]
  by (cases "aec_linear_audio (run_to_line_152 E h rf cf out lin n d)")
     (simp_all add: linear_staging_def Let_def)

text \<open>
  The staging of the linear output in closed form: the linear buffer is the one that
  the suppression stage wrote and the frame is the one that line 151 left.
\<close>

lemma linear_staging_state:
  assumes "aec_linear_audio h = Some lbuf"
  shows
    "let ref1 = UpdateFrame E (ref_frame h) 0 rf n (sample_rate h) kNormalSpeech kVadActive 1;
         cap1 = UpdateFrame E (aec_frame h) 0 cf n (sample_rate h) kNormalSpeech kVadActive 1;
         ref_copied = CopyFrom E (ref_audio h) ref1;
         cap_copied = CopyFrom E (aec_audio h) cap1;
         render = AnalyzeRender E (echo_controller h)
                    (SplitIntoFrequencyBands E (fst ref_copied));
         capture = AnalyzeCapture E (fst render) (fst cap_copied);
         filtered = Process E (hp_filter h) (SplitIntoFrequencyBands E (snd capture)) True;
         delayed = SetAudioBufferDelay E (fst capture) d;
         suppressed = ProcessCapture E delayed (snd filtered) lbuf False;
         copied = CopyTo E (MergeFrequencyBands E (fst (snd suppressed))) (snd cap_copied)
     in linear_staging E h rf cf out lin n d =
          Some (CopyTo E (snd (snd suppressed))
                  (UpdateFrame E (snd copied) 0 None 160 16000 kNormalSpeech kVadActive 1))"
  using run_to_line_152_state [of E h rf n cf d out lin] assms
  by (simp add: linear_staging_def Let_def)

lemma output_copy_fits_iff:
  "output_copy_fits E h rf cf out lin n d =
     (\<exists>s1. copy_to_output E n (run_to_line_152 E h rf cf out lin n d) = Inr s1)"
  by (simp add: output_copy_fits_def copy_to_output_fits run_to_line_152_kept)

section \<open>Frame processing: the whole call\<close>

lemma process_frame_null:
  assumes "handle = None \<or> rf = None \<or> cf = None \<or> out = None"
  shows "aec3_process_frame E handle rf cf out lin n d =
     Inr \<lparr>status = - 1, handle_after = handle, output_frame_after = out,
           linear_output_frame_after = lin, calls_made = []\<rparr>"
  using assms by (auto simp: aec3_process_frame_def)

lemma process_frame_non_null:
  assumes "handle = Some h" "rf \<noteq> None" "cf \<noteq> None" "out = Some o1"
  shows "aec3_process_frame E handle rf cf out lin n d =
     (case copy_to_output E n (run_to_line_152 E h rf cf o1 lin n d) of
        Inl f \<Rightarrow> Inl f
      | Inr s \<Rightarrow>
          (case copy_linear_output E s of
             Inl f \<Rightarrow> Inl f
           | Inr s \<Rightarrow>
               Inr \<lparr>status = 0, handle_after = Some (aec3_handle.truncate s),
                     output_frame_after = Some (output_array s),
                     linear_output_frame_after = linear_output_array s,
                     calls_made = made s\<rparr>))"
  using assms
  by (simp add: aec3_process_frame_def run_to_line_152_def Let_def del: not_None_eq)

lemma process_frame_returned:
  assumes "aec3_process_frame E handle rf cf out lin n d = Inr r" and "status r = 0"
  shows "\<exists>h o1 s1 s2. handle = Some h \<and> rf \<noteq> None \<and> cf \<noteq> None \<and> out = Some o1 \<and>
           copy_to_output E n (run_to_line_152 E h rf cf o1 lin n d) = Inr s1 \<and>
           copy_linear_output E s1 = Inr s2 \<and>
           handle_after r = Some (aec3_handle.truncate s2) \<and>
           output_frame_after r = Some (output_array s2) \<and>
           linear_output_frame_after r = linear_output_array s2 \<and>
           calls_made r = made s2"
proof -
  have nn: "\<not> (handle = None \<or> rf = None \<or> cf = None \<or> out = None)"
  proof
    assume "handle = None \<or> rf = None \<or> cf = None \<or> out = None"
    from process_frame_null [OF this, of E lin n d] assms show False by auto
  qed
  then obtain h o1 where h: "handle = Some h" and o1: "out = Some o1"
    by auto
  from nn have rf: "rf \<noteq> None" and cf: "cf \<noteq> None"
    by auto
  from assms(1) process_frame_non_null [OF h rf cf o1, of E lin n d]
  show ?thesis
    using h o1 rf cf by (auto split: sum.splits)
qed

text \<open>The call when the linear step is skipped.\<close>

lemma process_frame_skip:
  assumes "handle = Some h" "rf \<noteq> None" "cf \<noteq> None" "out = Some o1"
    and "aec_linear_audio h = None \<or> lin = None"
    and "copy_to_output E n (run_to_line_152 E h rf cf o1 lin n d) = Inr s1"
  shows "aec3_process_frame E handle rf cf out lin n d =
     Inr \<lparr>status = 0, handle_after = Some (aec3_handle.truncate s1),
           output_frame_after = Some (output_array s1),
           linear_output_frame_after = lin,
           calls_made = made (run_to_line_152 E h rf cf o1 lin n d) @
             [Call_memcpy OutputFrame AecFrame (n * scast (num_channels h) * 2)]\<rparr>"
proof -
  note a = copy_to_output_Inr [OF assms(6)]
  have "linear_output_array s1 = None \<or> aec_linear_audio s1 = None"
    using assms(5) run_to_line_152_kept(5) [of E h rf cf o1 lin n d]
    by (auto simp: a run_to_line_152_kept)
  then have "copy_linear_output E s1 = Inr s1"
    by (rule copy_linear_output_skip)
  then show ?thesis
    by (simp add: process_frame_non_null [OF assms(1-4)] assms(6) a run_to_line_152_kept)
qed

text \<open>The call when the linear step runs.\<close>

lemma process_frame_linear:
  assumes "handle = Some h" "rf \<noteq> None" "cf \<noteq> None" "out = Some o1"
    and "lin = Some lout"
    and "linear_staging E h rf cf o1 lin n d = Some (ab, af)"
    and "copy_to_output E n (run_to_line_152 E h rf cf o1 lin n d) = Inr s1"
  shows "aec3_process_frame E handle rf cf out lin n d =
     (case memcpy lout (data E af) 320 of
        Inl f \<Rightarrow> Inl f
      | Inr lo \<Rightarrow>
          Inr \<lparr>status = 0,
                handle_after = Some ((aec3_handle.truncate s1)
                                       \<lparr>aec_linear_audio := Some ab, aec_frame := af\<rparr>),
                output_frame_after = Some (output_array s1),
                linear_output_frame_after = Some lo,
                calls_made = made (run_to_line_152 E h rf cf o1 lin n d) @
                  [Call_memcpy OutputFrame AecFrame (n * scast (num_channels h) * 2),
                   Call_UpdateFrame AecFrame False 160 16000 1,
                   Call_CopyTo AecLinearAudio AecFrame,
                   Call_memcpy LinearOutputFrame AecFrame 320]\<rparr>)"
proof -
  let ?s = "run_to_line_152 E h rf cf o1 lin n d"
  note a = copy_to_output_Inr [OF assms(7)]
  from assms(6) obtain lbuf where lbuf: "aec_linear_audio ?s = Some lbuf"
    by (auto simp: linear_staging_def Let_def split: option.splits)
  from assms(6) linear_staging_Some [OF lbuf]
  have st: "CopyTo E lbuf (UpdateFrame E (aec_frame ?s) 0 None 160 16000
                kNormalSpeech kVadActive 1) = (ab, af)"
    by simp
  have lo: "linear_output_array s1 = Some lout" and lb: "aec_linear_audio s1 = Some lbuf"
    using assms(5) lbuf by (simp_all add: a run_to_line_152_kept)
  have tr: "aec3_handle.truncate
              ((stage_linear_output E lbuf s1)\<lparr>linear_output_array := x, made := m\<rparr>) =
            (aec3_handle.truncate s1)\<lparr>aec_linear_audio := Some ab, aec_frame := af\<rparr>" for x m
    using st
    by (simp add: stage_linear_output_def Let_def split_beta aec3_handle.truncate_def a
          c_int_div_def kLinearOutputRateHz_def)
  show ?thesis
    using st
    by (simp add: process_frame_non_null [OF assms(1-4)] assms(7)
          copy_linear_output_run [OF lo lb] stage_linear_output_fields a tr
          run_to_line_152_kept split: sum.split)
qed



text \<open>\<open>precedes a b xs\<close> says that \<open>a\<close> occurs in \<open>xs\<close> with a \<open>b\<close> behind it.\<close>

lemma precedes_iff:
  "precedes a b xs = (\<exists>ys zs. xs = ys @ a # zs \<and> b \<in> set zs)"
proof (induction xs)
  case Nil
  then show ?case by simp
next
  case (Cons x xs)
  show ?case
  proof
    assume "precedes a b (x # xs)"
    then consider "x = a" "b \<in> set xs" | "precedes a b xs"
      by auto
    then show "\<exists>ys zs. x # xs = ys @ a # zs \<and> b \<in> set zs"
    proof cases
      case 1
      then have "x # xs = [] @ a # xs \<and> b \<in> set xs" by simp
      then show ?thesis by blast
    next
      case 2
      with Cons.IH obtain ys zs where "xs = ys @ a # zs" "b \<in> set zs" by blast
      then have "x # xs = (x # ys) @ a # zs \<and> b \<in> set zs" by simp
      then show ?thesis by blast
    qed
  next
    assume "\<exists>ys zs. x # xs = ys @ a # zs \<and> b \<in> set zs"
    then obtain ys zs where eq: "x # xs = ys @ a # zs" and b: "b \<in> set zs" by blast
    show "precedes a b (x # xs)"
    proof (cases ys)
      case Nil
      with eq b show ?thesis by (simp add:)
    next
      case (Cons y ys')
      with eq have "xs = ys' @ a # zs" by simp
      with b Cons.IH show ?thesis by auto
    qed
  qed
qed

section \<open>The concrete inputs evaluated\<close>

lemma example_world_eval:
  "example_world want =
     \<lparr>heap = [0 \<mapsto>
        \<lparr>echo_controller = 0, hp_filter = 0, ref_audio = 0, aec_audio = 0,
         aec_linear_audio = (if want then Some 0 else None),
         ref_frame = silence, aec_frame = silence,
         sample_rate = 48000, num_channels = 1\<rparr>],
      next_addr = 1,
      calls = [Call_new_aec3_handle, Call_Create 48000 1 1, Call_new_HighPassFilter 48000 1,
               Call_new_AudioBuffer RefAudio 48000 1, Call_new_AudioBuffer AecAudio 48000 1] @
              (if want then [Call_new_AudioBuffer AecLinearAudio 16000 1] else [])\<rparr>"
  by (simp add: example_world_def aec3_create_def example_config_def empty_world_def Let_def toy_def
        toy_Create_def toy_new_HighPassFilter_def toy_new_AudioBuffer_def kLinearOutputRateHz_def)

lemma example_handle_eval:
  "example_handle want =
     Some \<lparr>echo_controller = 0, hp_filter = 0, ref_audio = 0, aec_audio = 0,
           aec_linear_audio = (if want then Some 0 else None),
           ref_frame = silence, aec_frame = silence,
           sample_rate = 48000, num_channels = 1\<rparr>"
  by (simp add: example_handle_def example_world_eval)

lemma create_example:
  "fst (aec3_create toy (Some (example_config want (Finite 0.9))) empty_world) = Some 0"
  by (simp add: aec3_create_def empty_world_def Let_def)

lemmas toy_defs = toy_def toy_UpdateFrame_def toy_Create_def toy_new_HighPassFilter_def
  toy_new_AudioBuffer_def toy_data_def toy_CopyFrom_def toy_CopyTo_def toy_bands_def
  toy_Analyze_def toy_Process_def toy_SetAudioBufferDelay_def toy_ProcessCapture_def
  toy_ProcessCapture_nullptr_def tone_def silence_def constant_frame_def

lemmas phase_defs = run_to_line_152_def start_run_def update_frames_def
  copy_frames_to_buffers_def process_render_def prepare_capture_def process_capture_def
  copy_to_frame_def copy_to_output_def stage_linear_output_def copy_linear_output_def
  aec3_handle.extend_def aec3_handle.truncate_def c_int_div_def kLinearOutputRateHz_def

text \<open>
  One call on the handle with a linear buffer and with a linear output array, at 48000
  Hz with 480 samples: both frames hold the sample 7 throughout and both output arrays
  hold 480 zeros.
\<close>

lemma example_linear_run:
  "aec3_process_frame toy (example_handle True) (Some tone) (Some tone) (Some silence)
     (Some silence) 480 d =
   Inr \<lparr>status = 0,
    handle_after = Some
      \<lparr>echo_controller = 4, hp_filter = 1, ref_audio = 7, aec_audio = 7,
       aec_linear_audio = Some 7, ref_frame = tone, aec_frame = constant_frame 7,
       sample_rate = 48000, num_channels = 1\<rparr>,
    output_frame_after = Some (replicate 480 7),
    linear_output_frame_after = Some (replicate 160 7 @ replicate 320 0),
    calls_made =
      [Call_UpdateFrame RefFrame True 480 48000 1,
       Call_UpdateFrame AecFrame True 480 48000 1,
       Call_CopyFrom RefAudio RefFrame,
       Call_CopyFrom AecAudio AecFrame,
       Call_SplitIntoFrequencyBands RefAudio,
       Call_AnalyzeRender RefAudio,
       Call_MergeFrequencyBands RefAudio,
       Call_AnalyzeCapture AecAudio,
       Call_SplitIntoFrequencyBands AecAudio,
       Call_Process AecAudio True,
       Call_SetAudioBufferDelay d,
       Call_ProcessCapture AecAudio (Some AecLinearAudio) False,
       Call_MergeFrequencyBands AecAudio,
       Call_CopyTo AecAudio AecFrame,
       Call_memcpy OutputFrame AecFrame 960,
       Call_UpdateFrame AecFrame False 160 16000 1,
       Call_CopyTo AecLinearAudio AecFrame,
       Call_memcpy LinearOutputFrame AecFrame 320]\<rparr>"
  by (simp add: process_frame_non_null [OF example_handle_eval, of _ _ _ silence]
        phase_defs toy_defs memcpy_960 memcpy_320)

text \<open>The same call with a null linear output array.\<close>

lemma example_no_destination_run:
  "aec3_process_frame toy (example_handle True) (Some tone) (Some tone) (Some silence)
     None 480 d =
   Inr \<lparr>status = 0,
    handle_after = Some
      \<lparr>echo_controller = 4, hp_filter = 1, ref_audio = 7, aec_audio = 7,
       aec_linear_audio = Some 7, ref_frame = tone, aec_frame = constant_frame 7,
       sample_rate = 48000, num_channels = 1\<rparr>,
    output_frame_after = Some (replicate 480 7),
    linear_output_frame_after = None,
    calls_made =
      [Call_UpdateFrame RefFrame True 480 48000 1,
       Call_UpdateFrame AecFrame True 480 48000 1,
       Call_CopyFrom RefAudio RefFrame,
       Call_CopyFrom AecAudio AecFrame,
       Call_SplitIntoFrequencyBands RefAudio,
       Call_AnalyzeRender RefAudio,
       Call_MergeFrequencyBands RefAudio,
       Call_AnalyzeCapture AecAudio,
       Call_SplitIntoFrequencyBands AecAudio,
       Call_Process AecAudio True,
       Call_SetAudioBufferDelay d,
       Call_ProcessCapture AecAudio (Some AecLinearAudio) False,
       Call_MergeFrequencyBands AecAudio,
       Call_CopyTo AecAudio AecFrame,
       Call_memcpy OutputFrame AecFrame 960]\<rparr>"
  by (simp add: process_frame_non_null [OF example_handle_eval, of _ _ _ silence]
        phase_defs toy_defs memcpy_960)

text \<open>The same call on the handle without a linear buffer.\<close>

lemma example_not_requested_run:
  "aec3_process_frame toy (example_handle False) (Some tone) (Some tone) (Some silence)
     (Some silence) 480 d =
   Inr \<lparr>status = 0,
    handle_after = Some
      \<lparr>echo_controller = 4, hp_filter = 1, ref_audio = 7, aec_audio = 7,
       aec_linear_audio = None, ref_frame = tone, aec_frame = constant_frame 7,
       sample_rate = 48000, num_channels = 1\<rparr>,
    output_frame_after = Some (replicate 480 7),
    linear_output_frame_after = Some silence,
    calls_made =
      [Call_UpdateFrame RefFrame True 480 48000 1,
       Call_UpdateFrame AecFrame True 480 48000 1,
       Call_CopyFrom RefAudio RefFrame,
       Call_CopyFrom AecAudio AecFrame,
       Call_SplitIntoFrequencyBands RefAudio,
       Call_AnalyzeRender RefAudio,
       Call_MergeFrequencyBands RefAudio,
       Call_AnalyzeCapture AecAudio,
       Call_SplitIntoFrequencyBands AecAudio,
       Call_Process AecAudio True,
       Call_SetAudioBufferDelay d,
       Call_ProcessCapture AecAudio None False,
       Call_MergeFrequencyBands AecAudio,
       Call_CopyTo AecAudio AecFrame,
       Call_memcpy OutputFrame AecFrame 960]\<rparr>"
  by (simp add: process_frame_non_null [OF example_handle_eval, of _ _ _ silence]
        phase_defs toy_defs memcpy_960)


lemma example_fits:
  "output_copy_fits toy (the (example_handle want)) (Some tone) (Some tone) silence lin 480 d"
  "lin = None \<or> lin = Some silence \<Longrightarrow>
   linear_copy_fits toy (the (example_handle want)) (Some tone) (Some tone) silence lin 480 d"
  "output_copy_fits toy (the (example_handle want)) (Some tone) (Some tone) silence lin 0 d"
  "lin = None \<or> lin = Some silence \<Longrightarrow>
   linear_copy_fits toy (the (example_handle want)) (Some tone) (Some tone) silence lin 0 d"
  by (auto simp: output_copy_fits_def linear_copy_fits_def linear_staging_def Let_def
        example_handle_eval phase_defs toy_defs split: option.split)

lemma example_staging:
  "linear_staging toy (the (example_handle True)) (Some tone) (Some tone) silence lin 480 d =
     Some (7, constant_frame 7)"
  by (simp add: linear_staging_def Let_def example_handle_eval phase_defs toy_defs)

section \<open>Properties of frame processing\<close>

text \<open>
  Claim C3. In every successful call the operations on the handle's objects happen in a
  fixed order, which shows in the handle the caller holds afterwards and in the calls
  made. The engine after the call is the engine to which the render analysis of the
  split reference buffer, the capture analysis of the capture buffer as it was copied
  from the frame, the caller's \<open>buffer_delay\<close> unchanged, and the suppression stage
  were applied, in this order. The reference buffer is the merged result of the render
  analysis. The capture buffer was analysed before it was split, the split buffer was
  filtered, the filtered buffer was suppressed, the suppressed buffer was merged, and
  the merged buffer was copied into the staging frame, whose array was then copied into
  the caller's output array. The calls are made once each, in the same order, and no
  other delay is given to the engine.
\<close>

theorem C3_order_of_operations:
  assumes "aec3_process_frame E handle rf cf out lin n d = Inr r" and "status r = 0"
  shows "\<exists>h out0 h' out1.
     handle = Some h \<and> out = Some out0 \<and>
     handle_after r = Some h' \<and> output_frame_after r = Some out1 \<and>
     (let ref1 = UpdateFrame E (ref_frame h) 0 rf n (sample_rate h) kNormalSpeech kVadActive 1;
          cap1 = UpdateFrame E (aec_frame h) 0 cf n (sample_rate h) kNormalSpeech kVadActive 1;
          ref_copied = CopyFrom E (ref_audio h) ref1;
          cap_copied = CopyFrom E (aec_audio h) cap1;
          render = AnalyzeRender E (echo_controller h)
                     (SplitIntoFrequencyBands E (fst ref_copied));
          capture = AnalyzeCapture E (fst render) (fst cap_copied);
          filtered = Process E (hp_filter h) (SplitIntoFrequencyBands E (snd capture)) True;
          delayed = SetAudioBufferDelay E (fst capture) d;
          suppressed =
            (case aec_linear_audio h of
               Some lbuf \<Rightarrow> fst (snd (ProcessCapture E delayed (snd filtered) lbuf False))
             | None \<Rightarrow> snd (ProcessCapture_nullptr E delayed (snd filtered) False));
          copied = CopyTo E (MergeFrequencyBands E suppressed) (snd cap_copied)
      in echo_controller h' =
           (case aec_linear_audio h of
              Some lbuf \<Rightarrow> fst (ProcessCapture E delayed (snd filtered) lbuf False)
            | None \<Rightarrow> fst (ProcessCapture_nullptr E delayed (snd filtered) False)) \<and>
         hp_filter h' = fst filtered \<and>
         ref_audio h' = MergeFrequencyBands E (snd render) \<and>
         ref_frame h' = snd ref_copied \<and>
         aec_audio h' = fst copied \<and>
         memcpy out0 (data E (snd copied)) (n * scast (num_channels h) * 2) = Inr out1) \<and>
     (let cs = calls_made r;
          suppression = Call_ProcessCapture AecAudio
            (if aec_linear_audio h = None then None else Some AecLinearAudio) False
      in distinct cs \<and>
         precedes (Call_SplitIntoFrequencyBands RefAudio) (Call_AnalyzeRender RefAudio) cs \<and>
         precedes (Call_AnalyzeRender RefAudio) (Call_MergeFrequencyBands RefAudio) cs \<and>
         precedes (Call_AnalyzeCapture AecAudio) (Call_SplitIntoFrequencyBands AecAudio) cs \<and>
         precedes (Call_AnalyzeCapture AecAudio) (Call_Process AecAudio True) cs \<and>
         precedes (Call_AnalyzeCapture AecAudio) suppression cs \<and>
         precedes (Call_SetAudioBufferDelay d) suppression cs \<and>
         (\<forall>d'. Call_SetAudioBufferDelay d' \<in> set cs \<longrightarrow> d' = d) \<and>
         precedes suppression (Call_MergeFrequencyBands AecAudio) cs \<and>
         precedes (Call_MergeFrequencyBands AecAudio)
           (Call_memcpy OutputFrame AecFrame (n * scast (num_channels h) * 2)) cs)"
proof -
  from process_frame_returned [OF assms]
  obtain h o1 s1 s2 where h: "handle = Some h" and rf: "rf \<noteq> None" and cf: "cf \<noteq> None"
    and o1: "out = Some o1"
    and s1: "copy_to_output E n (run_to_line_152 E h rf cf o1 lin n d) = Inr s1"
    and s2: "copy_linear_output E s1 = Inr s2"
    and ha: "handle_after r = Some (aec3_handle.truncate s2)"
    and oa: "output_frame_after r = Some (output_array s2)"
    and cm: "calls_made r = made s2"
    by blast
  let ?s = "run_to_line_152 E h rf cf o1 lin n d"
  note a = copy_to_output_Inr [OF s1]
  note b = copy_linear_output_kept [OF s2]
  note st = run_to_line_152_state [of E h rf n cf d o1 lin]
  have state: "let ref1 = UpdateFrame E (ref_frame h) 0 rf n (sample_rate h) kNormalSpeech kVadActive 1;
          cap1 = UpdateFrame E (aec_frame h) 0 cf n (sample_rate h) kNormalSpeech kVadActive 1;
          ref_copied = CopyFrom E (ref_audio h) ref1;
          cap_copied = CopyFrom E (aec_audio h) cap1;
          render = AnalyzeRender E (echo_controller h)
                     (SplitIntoFrequencyBands E (fst ref_copied));
          capture = AnalyzeCapture E (fst render) (fst cap_copied);
          filtered = Process E (hp_filter h) (SplitIntoFrequencyBands E (snd capture)) True;
          delayed = SetAudioBufferDelay E (fst capture) d;
          suppressed =
            (case aec_linear_audio h of
               Some lbuf \<Rightarrow> fst (snd (ProcessCapture E delayed (snd filtered) lbuf False))
             | None \<Rightarrow> snd (ProcessCapture_nullptr E delayed (snd filtered) False));
          copied = CopyTo E (MergeFrequencyBands E suppressed) (snd cap_copied)
      in echo_controller (aec3_handle.truncate s2) =
           (case aec_linear_audio h of
              Some lbuf \<Rightarrow> fst (ProcessCapture E delayed (snd filtered) lbuf False)
            | None \<Rightarrow> fst (ProcessCapture_nullptr E delayed (snd filtered) False)) \<and>
         hp_filter (aec3_handle.truncate s2) = fst filtered \<and>
         ref_audio (aec3_handle.truncate s2) = MergeFrequencyBands E (snd render) \<and>
         ref_frame (aec3_handle.truncate s2) = snd ref_copied \<and>
         aec_audio (aec3_handle.truncate s2) = fst copied \<and>
         memcpy o1 (data E (snd copied)) (n * scast (num_channels h) * 2) =
           Inr (output_array s2)"
    using st a(1) unfolding Let_def
    by (simp add: truncate_fields a b run_to_line_152_kept)
  have made: "made s2 =
     [Call_UpdateFrame RefFrame True n (sample_rate h) 1,
      Call_UpdateFrame AecFrame True n (sample_rate h) 1,
      Call_CopyFrom RefAudio RefFrame,
      Call_CopyFrom AecAudio AecFrame,
      Call_SplitIntoFrequencyBands RefAudio,
      Call_AnalyzeRender RefAudio,
      Call_MergeFrequencyBands RefAudio,
      Call_AnalyzeCapture AecAudio,
      Call_SplitIntoFrequencyBands AecAudio,
      Call_Process AecAudio True,
      Call_SetAudioBufferDelay d,
      Call_ProcessCapture AecAudio
        (if aec_linear_audio h = None then None else Some AecLinearAudio) False,
      Call_MergeFrequencyBands AecAudio,
      Call_CopyTo AecAudio AecFrame,
      Call_memcpy OutputFrame AecFrame (n * scast (num_channels h) * 2)] @
     (if linear_output_array s1 \<noteq> None \<and> aec_linear_audio s1 \<noteq> None
      then [Call_UpdateFrame AecFrame False 160 16000 1,
            Call_CopyTo AecLinearAudio AecFrame,
            Call_memcpy LinearOutputFrame AecFrame 320]
      else [])"
    using rf cf
    by (simp add: copy_linear_output_made [OF s2] a run_to_line_152_made run_to_line_152_kept
          del: not_None_eq)
  have log: "let cs = calls_made r;
          suppression = Call_ProcessCapture AecAudio
            (if aec_linear_audio h = None then None else Some AecLinearAudio) False
      in distinct cs \<and>
         precedes (Call_SplitIntoFrequencyBands RefAudio) (Call_AnalyzeRender RefAudio) cs \<and>
         precedes (Call_AnalyzeRender RefAudio) (Call_MergeFrequencyBands RefAudio) cs \<and>
         precedes (Call_AnalyzeCapture AecAudio) (Call_SplitIntoFrequencyBands AecAudio) cs \<and>
         precedes (Call_AnalyzeCapture AecAudio) (Call_Process AecAudio True) cs \<and>
         precedes (Call_AnalyzeCapture AecAudio) suppression cs \<and>
         precedes (Call_SetAudioBufferDelay d) suppression cs \<and>
         (\<forall>d'. Call_SetAudioBufferDelay d' \<in> set cs \<longrightarrow> d' = d) \<and>
         precedes suppression (Call_MergeFrequencyBands AecAudio) cs \<and>
         precedes (Call_MergeFrequencyBands AecAudio)
           (Call_memcpy OutputFrame AecFrame (n * scast (num_channels h) * 2)) cs"
    unfolding Let_def cm made by (simp del: not_None_eq)
  from h o1 ha oa state log show ?thesis by blast
qed

theorem C3_order_of_operations_witness:
  "aec3_process_frame toy (example_handle True) (Some tone) (Some tone) (Some silence) None 480 3 =
     Inr (projr (aec3_process_frame toy (example_handle True) (Some tone) (Some tone) (Some silence) None 480 3)) \<and>
   status (projr (aec3_process_frame toy (example_handle True) (Some tone) (Some tone) (Some silence) None 480 3)) = 0 \<and>
   (\<exists>h out0 h' out1.
     (example_handle True) = Some h \<and> (Some silence) = Some out0 \<and>
     handle_after (projr (aec3_process_frame toy (example_handle True) (Some tone) (Some tone) (Some silence) None 480 3)) = Some h' \<and> output_frame_after (projr (aec3_process_frame toy (example_handle True) (Some tone) (Some tone) (Some silence) None 480 3)) = Some out1 \<and>
     (let ref1 = UpdateFrame toy (ref_frame h) 0 (Some tone) 480 (sample_rate h) kNormalSpeech kVadActive 1;
          cap1 = UpdateFrame toy (aec_frame h) 0 (Some tone) 480 (sample_rate h) kNormalSpeech kVadActive 1;
          ref_copied = CopyFrom toy (ref_audio h) ref1;
          cap_copied = CopyFrom toy (aec_audio h) cap1;
          render = AnalyzeRender toy (echo_controller h)
                     (SplitIntoFrequencyBands toy (fst ref_copied));
          capture = AnalyzeCapture toy (fst render) (fst cap_copied);
          filtered = Process toy (hp_filter h) (SplitIntoFrequencyBands toy (snd capture)) True;
          delayed = SetAudioBufferDelay toy (fst capture) 3;
          suppressed =
            (case aec_linear_audio h of
               Some lbuf \<Rightarrow> fst (snd (ProcessCapture toy delayed (snd filtered) lbuf False))
             | None \<Rightarrow> snd (ProcessCapture_nullptr toy delayed (snd filtered) False));
          copied = CopyTo toy (MergeFrequencyBands toy suppressed) (snd cap_copied)
      in echo_controller h' =
           (case aec_linear_audio h of
              Some lbuf \<Rightarrow> fst (ProcessCapture toy delayed (snd filtered) lbuf False)
            | None \<Rightarrow> fst (ProcessCapture_nullptr toy delayed (snd filtered) False)) \<and>
         hp_filter h' = fst filtered \<and>
         ref_audio h' = MergeFrequencyBands toy (snd render) \<and>
         ref_frame h' = snd ref_copied \<and>
         aec_audio h' = fst copied \<and>
         memcpy out0 (data toy (snd copied)) (480 * scast (num_channels h) * 2) = Inr out1) \<and>
     (let cs = calls_made (projr (aec3_process_frame toy (example_handle True) (Some tone) (Some tone) (Some silence) None 480 3));
          suppression = Call_ProcessCapture AecAudio
            (if aec_linear_audio h = None then None else Some AecLinearAudio) False
      in distinct cs \<and>
         precedes (Call_SplitIntoFrequencyBands RefAudio) (Call_AnalyzeRender RefAudio) cs \<and>
         precedes (Call_AnalyzeRender RefAudio) (Call_MergeFrequencyBands RefAudio) cs \<and>
         precedes (Call_AnalyzeCapture AecAudio) (Call_SplitIntoFrequencyBands AecAudio) cs \<and>
         precedes (Call_AnalyzeCapture AecAudio) (Call_Process AecAudio True) cs \<and>
         precedes (Call_AnalyzeCapture AecAudio) suppression cs \<and>
         precedes (Call_SetAudioBufferDelay 3) suppression cs \<and>
         (\<forall>d'. Call_SetAudioBufferDelay d' \<in> set cs \<longrightarrow> d' = 3) \<and>
         precedes suppression (Call_MergeFrequencyBands AecAudio) cs \<and>
         precedes (Call_MergeFrequencyBands AecAudio)
           (Call_memcpy OutputFrame AecFrame (480 * scast (num_channels h) * 2)) cs))"
proof -
  have h1: "aec3_process_frame toy (example_handle True) (Some tone) (Some tone) (Some silence) None 480 3 =
     Inr (projr (aec3_process_frame toy (example_handle True) (Some tone) (Some tone) (Some silence) None 480 3))"
    by (simp add: example_no_destination_run)
  have h2: "status (projr (aec3_process_frame toy (example_handle True) (Some tone) (Some tone) (Some silence) None 480 3)) = 0"
    by (simp add: example_no_destination_run)
  show ?thesis
    by (rule conjI [OF h1 conjI [OF h2 C3_order_of_operations [OF h1 h2]]])
qed

text \<open>
  Claim C4. A call in which the handle, the reference frame, the capture frame or the
  output frame is null returns a negative status and does nothing else: the handle's
  object, with the engine and the buffers it owns, and the caller's arrays are as
  before, and no call is made on any collaborator.
\<close>

theorem C4_null_argument_no_effect:
  assumes "handle = None \<or> rf = None \<or> cf = None \<or> out = None"
  shows "\<exists>r. aec3_process_frame E handle rf cf out lin n d = Inr r \<and>
             sint (status r) < 0 \<and>
             handle_after r = handle \<and>
             output_frame_after r = out \<and>
             linear_output_frame_after r = lin \<and>
             calls_made r = []"
  using assms by (simp add: process_frame_null)

theorem C4_null_argument_no_effect_witness:
  "(example_handle True = None \<or> (None :: pcm option) = None \<or> Some tone = None \<or>
      Some silence = None) \<and>
   (\<exists>r. aec3_process_frame toy (example_handle True) None (Some tone) (Some silence) (Some silence) 480 3 = Inr r \<and>
        sint (status r) < 0 \<and>
        handle_after r = example_handle True \<and>
        output_frame_after r = Some silence \<and>
        linear_output_frame_after r = Some silence \<and>
        calls_made r = [])"
proof -
  have h: "example_handle True = None \<or> (None :: pcm option) = None \<or> Some tone = None \<or>
      Some silence = None"
    by simp
  from h C4_null_argument_no_effect [OF h] show ?thesis by (rule conjI)
qed

text \<open>
  Claim C5. A call that passes the null checks, with arrays that have room for its
  copies, returns success, and it writes into the caller's linear output array exactly
  when the handle has a linear buffer and the linear output pointer is not null. When
  it writes, the array holds the first 160 samples of the staging frame, which was set
  to 160 samples per channel at 16000 Hz and into which the linear buffer that the
  suppression stage wrote was copied, and behind them what it held before. In the other
  cases the array, if there is one, is left as it was, and the call still succeeds.
  Whether the handle has a linear buffer does not change in the call;
  \<open>created_handle\<close> below shows that it has one exactly when linear output was
  requested at creation.
\<close>

theorem C5_linear_output_written_iff:
  assumes "handle = Some h" "rf \<noteq> None" "cf \<noteq> None" "out = Some out0"
    and "output_copy_fits E h rf cf out0 lin n d"
    and "linear_copy_fits E h rf cf out0 lin n d"
  shows "\<exists>r h'.
     aec3_process_frame E handle rf cf out lin n d = Inr r \<and>
     status r = 0 \<and>
     (list_ex writes_linear_output (calls_made r) \<longleftrightarrow> aec_linear_audio h \<noteq> None \<and> lin \<noteq> None) \<and>
     (aec_linear_audio h = None \<or> lin = None \<longrightarrow> linear_output_frame_after r = lin) \<and>
     (\<forall>lout lbuf. aec_linear_audio h = Some lbuf \<and> lin = Some lout \<longrightarrow>
        (\<exists>ab af.
           (let ref1 = UpdateFrame E (ref_frame h) 0 rf n (sample_rate h) kNormalSpeech kVadActive 1;
              cap1 = UpdateFrame E (aec_frame h) 0 cf n (sample_rate h) kNormalSpeech kVadActive 1;
              ref_copied = CopyFrom E (ref_audio h) ref1;
              cap_copied = CopyFrom E (aec_audio h) cap1;
              render = AnalyzeRender E (echo_controller h)
                         (SplitIntoFrequencyBands E (fst ref_copied));
              capture = AnalyzeCapture E (fst render) (fst cap_copied);
              filtered = Process E (hp_filter h) (SplitIntoFrequencyBands E (snd capture)) True;
              delayed = SetAudioBufferDelay E (fst capture) d;
              suppressed = ProcessCapture E delayed (snd filtered) lbuf False;
              copied = CopyTo E (MergeFrequencyBands E (fst (snd suppressed))) (snd cap_copied)
          in (ab, af) =
               CopyTo E (snd (snd suppressed))
                 (UpdateFrame E (snd copied) 0 None 160 16000 kNormalSpeech kVadActive 1)) \<and>
           linear_output_frame_after r = Some (take 160 (data E af) @ drop 160 lout))) \<and>
     handle_after r = Some h' \<and>
     (aec_linear_audio h' = None) = (aec_linear_audio h = None)"
proof -
  from assms(5) obtain s1
    where s1: "copy_to_output E n (run_to_line_152 E h rf cf out0 lin n d) = Inr s1"
    by (auto simp: output_copy_fits_iff)
  note a = copy_to_output_Inr [OF s1]
  note made = run_to_line_152_made [of E h rf cf out0 lin n d]
  show ?thesis
  proof (cases "aec_linear_audio h = None \<or> lin = None")
    case True
    from process_frame_skip [OF assms(1-4) True s1] True
    show ?thesis
      by (auto simp: made truncate_fields a run_to_line_152_kept simp del: not_None_eq)
  next
    case False
    then obtain lout where lout: "lin = Some lout" and lb: "aec_linear_audio h \<noteq> None"
      by auto
    from lb obtain ab af where st: "linear_staging E h rf cf out0 lin n d = Some (ab, af)"
      using linear_staging_None [of E h rf cf out0 lin n d] by (cases "linear_staging E h rf cf out0 lin n d") auto
    have fits: "160 \<le> length lout" "160 \<le> length (data E af)"
      using assms(6) st by (simp_all add: linear_copy_fits_def lout)
    from lb obtain lbuf where lbuf: "aec_linear_audio h = Some lbuf"
      by auto
    have closed: "(let ref1 = UpdateFrame E (ref_frame h) 0 rf n (sample_rate h) kNormalSpeech kVadActive 1;
          cap1 = UpdateFrame E (aec_frame h) 0 cf n (sample_rate h) kNormalSpeech kVadActive 1;
          ref_copied = CopyFrom E (ref_audio h) ref1;
          cap_copied = CopyFrom E (aec_audio h) cap1;
          render = AnalyzeRender E (echo_controller h)
                     (SplitIntoFrequencyBands E (fst ref_copied));
          capture = AnalyzeCapture E (fst render) (fst cap_copied);
          filtered = Process E (hp_filter h) (SplitIntoFrequencyBands E (snd capture)) True;
          delayed = SetAudioBufferDelay E (fst capture) d;
          suppressed = ProcessCapture E delayed (snd filtered) lbuf False;
          copied = CopyTo E (MergeFrequencyBands E (fst (snd suppressed))) (snd cap_copied)
      in (ab, af) =
           CopyTo E (snd (snd suppressed))
             (UpdateFrame E (snd copied) 0 None 160 16000 kNormalSpeech kVadActive 1))"
      using linear_staging_state [OF lbuf, of E rf n cf d out0 lin] st
      unfolding Let_def by simp
    from process_frame_linear [OF assms(1-4) lout st s1] lbuf lout closed
    show ?thesis
      by (simp add: memcpy_320 [OF fits] made truncate_fields del: not_None_eq) blast
  qed
qed

theorem C5_linear_output_written_iff_witness:
  "example_handle True = Some (the (example_handle True)) \<and>
   example_handle False = Some (the (example_handle False)) \<and>
   aec_linear_audio (the (example_handle True)) \<noteq> None \<and>
   aec_linear_audio (the (example_handle False)) = None \<and>
   output_copy_fits toy (the (example_handle True)) (Some tone) (Some tone) silence
     (Some silence) 480 0 \<and>
   linear_copy_fits toy (the (example_handle True)) (Some tone) (Some tone) silence
     (Some silence) 480 0 \<and>
   output_copy_fits toy (the (example_handle True)) (Some tone) (Some tone) silence None 480 0 \<and>
   linear_copy_fits toy (the (example_handle True)) (Some tone) (Some tone) silence None 480 0 \<and>
   output_copy_fits toy (the (example_handle False)) (Some tone) (Some tone) silence
     (Some silence) 480 0 \<and>
   linear_copy_fits toy (the (example_handle False)) (Some tone) (Some tone) silence
     (Some silence) 480 0 \<and>
   (\<exists>r. aec3_process_frame toy (example_handle True) (Some tone) (Some tone) (Some silence)
          (Some silence) 480 0 = Inr r \<and>
        status r = 0 \<and> list_ex writes_linear_output (calls_made r) \<and>
        linear_output_frame_after r = Some (take 160 (data toy (constant_frame 7)) @ drop 160 silence)) \<and>
   (\<exists>r. aec3_process_frame toy (example_handle True) (Some tone) (Some tone) (Some silence)
          None 480 0 = Inr r \<and>
        status r = 0 \<and> \<not> list_ex writes_linear_output (calls_made r) \<and>
        linear_output_frame_after r = None) \<and>
   (\<exists>r. aec3_process_frame toy (example_handle False) (Some tone) (Some tone) (Some silence)
          (Some silence) 480 0 = Inr r \<and>
        status r = 0 \<and> \<not> list_ex writes_linear_output (calls_made r) \<and>
        linear_output_frame_after r = Some silence)"
proof -
  have t: "example_handle True = Some (the (example_handle True))"
    and f: "example_handle False = Some (the (example_handle False))"
    by (simp_all add: example_handle_eval)
  have nn: "Some tone \<noteq> None"
    by simp
  have lt: "aec_linear_audio (the (example_handle True)) \<noteq> None"
    and lf: "aec_linear_audio (the (example_handle False)) = None"
    by (simp_all add: example_handle_eval)
  have a1: "output_copy_fits toy (the (example_handle True)) (Some tone) (Some tone) silence
     (Some silence) 480 0"
    and a2: "linear_copy_fits toy (the (example_handle True)) (Some tone) (Some tone) silence
     (Some silence) 480 0"
    and b1: "output_copy_fits toy (the (example_handle True)) (Some tone) (Some tone) silence
     None 480 0"
    and b2: "linear_copy_fits toy (the (example_handle True)) (Some tone) (Some tone) silence
     None 480 0"
    and c1: "output_copy_fits toy (the (example_handle False)) (Some tone) (Some tone) silence
     (Some silence) 480 0"
    and c2: "linear_copy_fits toy (the (example_handle False)) (Some tone) (Some tone) silence
     (Some silence) 480 0"
    by (simp_all add: example_fits)
  have st: "linear_staging toy (the (example_handle True)) (Some tone) (Some tone) silence
     (Some silence) 480 0 = Some (7, constant_frame 7)"
    by (rule example_staging)
  have l0: "aec_linear_audio (the (example_handle True)) = Some 0"
    by (simp add: example_handle_eval)
  note lss = linear_staging_state [OF l0, of toy "Some tone" 480 "Some tone" 0 silence
      "Some silence", unfolded Let_def st, symmetric]
  from C5_linear_output_written_iff [OF t nn nn refl a1 a2, unfolded Let_def] l0 lss
  have A: "\<exists>r. aec3_process_frame toy (example_handle True) (Some tone) (Some tone) (Some silence)
          (Some silence) 480 0 = Inr r \<and>
        status r = 0 \<and> list_ex writes_linear_output (calls_made r) \<and>
        linear_output_frame_after r = Some (take 160 (data toy (constant_frame 7)) @ drop 160 silence)"
    by (auto simp del: not_None_eq)
  from C5_linear_output_written_iff [OF t nn nn refl b1 b2]
  have B: "\<exists>r. aec3_process_frame toy (example_handle True) (Some tone) (Some tone) (Some silence)
          None 480 0 = Inr r \<and>
        status r = 0 \<and> \<not> list_ex writes_linear_output (calls_made r) \<and>
        linear_output_frame_after r = None"
    by auto
  from C5_linear_output_written_iff [OF f nn nn refl c1 c2] lf
  have C: "\<exists>r. aec3_process_frame toy (example_handle False) (Some tone) (Some tone) (Some silence)
          (Some silence) 480 0 = Inr r \<and>
        status r = 0 \<and> \<not> list_ex writes_linear_output (calls_made r) \<and>
        linear_output_frame_after r = Some silence"
    by auto
  from t f lt lf a1 a2 b1 b2 c1 c2 A B C show ?thesis by (intro conjI)
qed

text \<open>
  Claim C6, as stated, fails on the number of samples. The third argument of
  \<open>memcpy\<close> on line 162 counts bytes, so 160 samples are copied, not 320: after the
  call below the staging frame holds the sample 7 at the indices 160 and 319, and the
  caller's linear output array still holds its zeros there.
\<close>

theorem C6_counterexample:
  "aec3_process_frame toy (example_handle True) (Some tone) (Some tone) (Some silence)
     (Some silence) 480 0 =
     Inr (projr (aec3_process_frame toy (example_handle True) (Some tone) (Some tone)
                   (Some silence) (Some silence) 480 0)) \<and>
   map ((!) (the (linear_output_frame_after
          (projr (aec3_process_frame toy (example_handle True) (Some tone) (Some tone)
                    (Some silence) (Some silence) 480 0))))) [0, 159, 160, 319] = [7, 7, 0, 0] \<and>
   map ((!) (toy_data (aec_frame (the (handle_after
          (projr (aec3_process_frame toy (example_handle True) (Some tone) (Some tone)
                    (Some silence) (Some silence) 480 0))))))) [0, 159, 160, 319] = [7, 7, 7, 7]"
  by (simp add: example_linear_run nth_append constant_frame_def toy_data_def)

text \<open>
  Claim C6, amended. Whenever the linear-output step runs, with arrays that have room
  for its copy, the staging frame becomes the frame that line 151 left, set to 160
  samples per channel at 16000 Hz, with the linear buffer that the suppression stage
  wrote copied into it. These two calls and a copy of 320 bytes into the caller's
  linear output array are the last three calls. The array then holds the first 160
  samples of the staging frame and, from index 160 on, what it held before. None of
  this depends on the sample rate of the handle.
\<close>

theorem C6_linear_step_copies_320_bytes:
  assumes "handle = Some h" "rf \<noteq> None" "cf \<noteq> None" "out = Some out0"
    and "lin = Some lout" "aec_linear_audio h = Some lbuf"
    and "output_copy_fits E h rf cf out0 lin n d"
    and "linear_copy_fits E h rf cf out0 lin n d"
  shows "\<exists>r before h' ab af.
     aec3_process_frame E handle rf cf out lin n d = Inr r \<and>
     calls_made r =
       before @ [Call_UpdateFrame AecFrame False 160 16000 1,
                 Call_CopyTo AecLinearAudio AecFrame,
                 Call_memcpy LinearOutputFrame AecFrame 320] \<and>
     (let ref1 = UpdateFrame E (ref_frame h) 0 rf n (sample_rate h) kNormalSpeech kVadActive 1;
          cap1 = UpdateFrame E (aec_frame h) 0 cf n (sample_rate h) kNormalSpeech kVadActive 1;
          ref_copied = CopyFrom E (ref_audio h) ref1;
          cap_copied = CopyFrom E (aec_audio h) cap1;
          render = AnalyzeRender E (echo_controller h)
                     (SplitIntoFrequencyBands E (fst ref_copied));
          capture = AnalyzeCapture E (fst render) (fst cap_copied);
          filtered = Process E (hp_filter h) (SplitIntoFrequencyBands E (snd capture)) True;
          delayed = SetAudioBufferDelay E (fst capture) d;
          suppressed = ProcessCapture E delayed (snd filtered) lbuf False;
          copied = CopyTo E (MergeFrequencyBands E (fst (snd suppressed))) (snd cap_copied)
      in (ab, af) =
           CopyTo E (snd (snd suppressed))
             (UpdateFrame E (snd copied) 0 None 160 16000 kNormalSpeech kVadActive 1)) \<and>
     linear_staging E h rf cf out0 lin n d = Some (ab, af) \<and>
     handle_after r = Some h' \<and>
     aec_linear_audio h' = Some ab \<and>
     aec_frame h' = af \<and>
     linear_output_frame_after r = Some (take 160 (data E af) @ drop 160 lout)"
proof -
  from assms(7) obtain s1
    where s1: "copy_to_output E n (run_to_line_152 E h rf cf out0 lin n d) = Inr s1"
    by (auto simp: output_copy_fits_iff)
  from assms(6) obtain ab af where st: "linear_staging E h rf cf out0 lin n d = Some (ab, af)"
    using linear_staging_None [of E h rf cf out0 lin n d]
    by (cases "linear_staging E h rf cf out0 lin n d") auto
  have fits: "160 \<le> length lout" "160 \<le> length (data E af)"
    using assms(8) st by (simp_all add: linear_copy_fits_def assms(5))
  let ?before = "made (run_to_line_152 E h rf cf out0 lin n d) @
                  [Call_memcpy OutputFrame AecFrame (n * scast (num_channels h) * 2)]"
  let ?h = "(aec3_handle.truncate s1)\<lparr>aec_linear_audio := Some ab, aec_frame := af\<rparr>"
  let ?r = "\<lparr>status = 0, handle_after = Some ?h,
            output_frame_after = Some (output_array s1),
            linear_output_frame_after = Some (take 160 (data E af) @ drop 160 lout),
            calls_made = ?before @
              [Call_UpdateFrame AecFrame False 160 16000 1,
               Call_CopyTo AecLinearAudio AecFrame,
               Call_memcpy LinearOutputFrame AecFrame 320]\<rparr>"
  have r: "aec3_process_frame E handle rf cf out lin n d = Inr ?r"
    using process_frame_linear [OF assms(1-5) st s1] by (simp add: memcpy_320 [OF fits])
  have closed: "let ref1 = UpdateFrame E (ref_frame h) 0 rf n (sample_rate h) kNormalSpeech kVadActive 1;
          cap1 = UpdateFrame E (aec_frame h) 0 cf n (sample_rate h) kNormalSpeech kVadActive 1;
          ref_copied = CopyFrom E (ref_audio h) ref1;
          cap_copied = CopyFrom E (aec_audio h) cap1;
          render = AnalyzeRender E (echo_controller h)
                     (SplitIntoFrequencyBands E (fst ref_copied));
          capture = AnalyzeCapture E (fst render) (fst cap_copied);
          filtered = Process E (hp_filter h) (SplitIntoFrequencyBands E (snd capture)) True;
          delayed = SetAudioBufferDelay E (fst capture) d;
          suppressed = ProcessCapture E delayed (snd filtered) lbuf False;
          copied = CopyTo E (MergeFrequencyBands E (fst (snd suppressed))) (snd cap_copied)
      in (ab, af) =
           CopyTo E (snd (snd suppressed))
             (UpdateFrame E (snd copied) 0 None 160 16000 kNormalSpeech kVadActive 1)"
    using linear_staging_state [OF assms(6), of E rf n cf d out0 lin] st
    unfolding Let_def by simp
  have "calls_made ?r = ?before @ [Call_UpdateFrame AecFrame False 160 16000 1,
                 Call_CopyTo AecLinearAudio AecFrame,
                 Call_memcpy LinearOutputFrame AecFrame 320]"
    and "handle_after ?r = Some ?h" and "aec_linear_audio ?h = Some ab" and "aec_frame ?h = af"
    and "linear_output_frame_after ?r = Some (take 160 (data E af) @ drop 160 lout)"
    by simp_all
  with r st closed show ?thesis by blast
qed

theorem C6_linear_step_copies_320_bytes_witness:
  "example_handle True = Some (the (example_handle True)) \<and>
   Some tone \<noteq> None \<and>
   aec_linear_audio (the (example_handle True)) = Some 0 \<and>
   output_copy_fits toy (the (example_handle True)) (Some tone) (Some tone) silence
     (Some silence) 480 3 \<and>
   linear_copy_fits toy (the (example_handle True)) (Some tone) (Some tone) silence
     (Some silence) 480 3 \<and>
   (\<exists>r before h' ab af.
     aec3_process_frame toy (example_handle True) (Some tone) (Some tone) (Some silence) (Some silence) 480 3 = Inr r \<and>
     calls_made r =
       before @ [Call_UpdateFrame AecFrame False 160 16000 1,
                 Call_CopyTo AecLinearAudio AecFrame,
                 Call_memcpy LinearOutputFrame AecFrame 320] \<and>
     (let ref1 = UpdateFrame toy (ref_frame (the (example_handle True))) 0 (Some tone) 480 (sample_rate (the (example_handle True))) kNormalSpeech kVadActive 1;
          cap1 = UpdateFrame toy (aec_frame (the (example_handle True))) 0 (Some tone) 480 (sample_rate (the (example_handle True))) kNormalSpeech kVadActive 1;
          ref_copied = CopyFrom toy (ref_audio (the (example_handle True))) ref1;
          cap_copied = CopyFrom toy (aec_audio (the (example_handle True))) cap1;
          render = AnalyzeRender toy (echo_controller (the (example_handle True)))
                     (SplitIntoFrequencyBands toy (fst ref_copied));
          capture = AnalyzeCapture toy (fst render) (fst cap_copied);
          filtered = Process toy (hp_filter (the (example_handle True))) (SplitIntoFrequencyBands toy (snd capture)) True;
          delayed = SetAudioBufferDelay toy (fst capture) 3;
          suppressed = ProcessCapture toy delayed (snd filtered) 0 False;
          copied = CopyTo toy (MergeFrequencyBands toy (fst (snd suppressed))) (snd cap_copied)
      in (ab, af) =
           CopyTo toy (snd (snd suppressed))
             (UpdateFrame toy (snd copied) 0 None 160 16000 kNormalSpeech kVadActive 1)) \<and>
     linear_staging toy (the (example_handle True)) (Some tone) (Some tone) silence (Some silence) 480 3 = Some (ab, af) \<and>
     handle_after r = Some h' \<and>
     aec_linear_audio h' = Some ab \<and>
     aec_frame h' = af \<and>
     linear_output_frame_after r = Some (take 160 (data toy af) @ drop 160 silence))"
proof -
  have t: "example_handle True = Some (the (example_handle True))"
    by (simp add: example_handle_eval)
  have nn: "Some tone \<noteq> None"
    by simp
  have lt: "aec_linear_audio (the (example_handle True)) = Some 0"
    by (simp add: example_handle_eval)
  have f1: "output_copy_fits toy (the (example_handle True)) (Some tone) (Some tone) silence
     (Some silence) 480 3"
    by (rule example_fits)
  have f2: "linear_copy_fits toy (the (example_handle True)) (Some tone) (Some tone) silence
     (Some silence) 480 3"
    by (rule example_fits) simp
  note c = C6_linear_step_copies_320_bytes [OF t nn nn refl refl lt f1 f2]
  from t nn lt f1 f2 c show ?thesis by (intro conjI)
qed




section \<open>Creation and destruction of handles\<close>

text \<open>
  A created handle: the engine is made from the tuned configuration, and the handle
  has a linear buffer exactly when linear output is requested.
\<close>

lemma created_handle:
  "\<exists>h w'. aec3_create E (Some c) w = (Some (next_addr w), w') \<and>
          heap w' (next_addr w) = Some h \<and>
          (\<forall>b. b \<noteq> next_addr w \<longrightarrow> heap w' b = heap w b) \<and>
          echo_controller h =
            Create E (tuned_aec_config (default_config E) c)
              (aec3_config_t.sample_rate c) (aec3_config_t.num_channels c)
              (aec3_config_t.num_channels c) \<and>
          (aec_linear_audio h \<noteq> None) = export_linear c \<and>
          sample_rate h = aec3_config_t.sample_rate c \<and>
          num_channels h = aec3_config_t.num_channels c"
  by (simp add: aec3_create_def Let_def)

text \<open>Creating a handle and destroying it gives back the heap.\<close>

lemma create_then_destroy:
  assumes "heap w (next_addr w) = None"
  shows "\<exists>w'. aec3_destroy (fst (aec3_create E (Some c) w)) (snd (aec3_create E (Some c) w)) = Inr w' \<and>
              heap w' = heap w"
  using assms by (auto simp: aec3_create_def aec3_destroy_def Let_def fun_eq_iff)

text \<open>
  Claim C9, as stated, fails on the second call: \<open>aec3_destroy\<close> deletes its
  argument and keeps no record of it, so destroying the created handle twice deletes an
  object that no longer exists.
\<close>

theorem C9_counterexample:
  "fst (aec3_create toy (Some (example_config False (Finite 0.9))) empty_world) = Some 0 \<and>
   snd (aec3_create toy (Some (example_config False (Finite 0.9))) empty_world) =
     example_world False \<and>
   destroy_twice (Some 0) (example_world False) = Inl Invalid_delete"
proof -
  have 1: "fst (aec3_create toy (Some (example_config False (Finite 0.9))) empty_world) = Some 0"
    by (rule create_example)
  have 2: "snd (aec3_create toy (Some (example_config False (Finite 0.9))) empty_world) =
     example_world False"
    by (simp add: example_world_def)
  have 3: "destroy_twice (Some 0) (example_world False) = Inl Invalid_delete"
    by (simp add: example_world_eval destroy_twice_def aec3_destroy_def)
  from 1 2 3 show ?thesis by blast
qed

text \<open>
  Claim C9, amended. \<open>aec3_destroy\<close> on the null handle does nothing and does not
  fault. On a live handle it succeeds and releases the handle with everything the
  handle owns, leaving every other handle as it was. A second call on the same handle
  is an invalid delete.
\<close>

theorem C9_destroy_null_and_live:
  "aec3_destroy None w = Inr w \<and>
   (heap w a = Some h \<longrightarrow>
      (\<exists>w'. aec3_destroy (Some a) w = Inr w' \<and>
            heap w' a = None \<and>
            (\<forall>b. b \<noteq> a \<longrightarrow> heap w' b = heap w b) \<and>
            aec3_destroy (Some a) w' = Inl Invalid_delete))"
  by (simp add: aec3_destroy_def)

theorem C9_destroy_null_and_live_witness:
  "heap (example_world True) 0 = example_handle True \<and>
   example_handle True = Some (the (example_handle True)) \<and>
   aec3_destroy None (example_world True) = Inr (example_world True) \<and>
   (\<exists>w'. aec3_destroy (Some 0) (example_world True) = Inr w' \<and>
         heap w' 0 = None \<and>
         (\<forall>b. b \<noteq> 0 \<longrightarrow> heap w' b = heap (example_world True) b) \<and>
         aec3_destroy (Some 0) w' = Inl Invalid_delete)"
proof -
  have t: "heap (example_world True) 0 = Some (the (example_handle True))"
    by (simp add: example_handle_eval example_world_eval)
  from t C9_destroy_null_and_live [of "example_world True" 0 "the (example_handle True)"]
  show ?thesis by (simp add: example_handle_def)
qed

end
